theory Spec2Isabelle
  imports Complex_Main "HOL-Library.Sublist"
begin

section \<open>API-key governance: the key manager and the request gate\<close>

text \<open>
  A shallow embedding of \<^verbatim>\<open>security/api_key_manager.py\<close> (class
  \<^verbatim>\<open>APIKeyManager\<close>) and \<^verbatim>\<open>security/api_key_middleware.py\<close> (class
  \<^verbatim>\<open>APIKeyMiddleware\<close>).

  Conventions of the embedding:
  \<^item> Python dictionaries are maps; a dictionary with a fixed set of keys (a stored key
    record, a tracker) is a record with one field per key.
  \<^item> The metadata dictionary of a key record is an object that callers may hold too: a
    record stores its address, and the manager's state carries the dictionary objects
    by address.
  \<^item> A credential is given to the operations by the bytes of its UTF-8 form, which is
    what \<^verbatim>\<open>_hash_key\<close> hashes. A \<^verbatim>\<open>str\<close> with a surrogate code point has no such
    form: \<^verbatim>\<open>api_key.encode()\<close> raises on it, in every method as its hashing step.
    \<open>validate_key_call\<close> and \<open>check_rate_limit_call\<close> are the two checking methods on
    an arbitrary \<^verbatim>\<open>str\<close>, with that step.
  \<^item> \<^verbatim>\<open>time.time()\<close> returns a float; timestamps are real numbers here, and every
    call of \<^verbatim>\<open>time.time()\<close> in a method is one argument of the method's model, in
    the order of the calls.
  \<^item> \<^verbatim>\<open>_hash_key\<close> is SHA-256 from \<^verbatim>\<open>hashlib\<close>; the library function is the
    argument \<open>hash_key\<close> of every operation.
  \<^item> A method of the manager returns its result together with the manager after the
    call. A raised exception is \<open>Inl\<close>; the manager returned beside it is the state
    the exception leaves behind.
  \<^item> Log output is not modelled.
\<close>

subsection \<open>Data\<close>

datatype py_value = PyInt int | PyStr string

datatype py_error = KeyError string | AttributeError | UnicodeEncodeError | OverflowError

type_synonym hasher = "string \<Rightarrow> string"

text \<open>
  One value of \<^verbatim>\<open>self._api_keys\<close>; \<open>metadata\<close> is the address of the metadata
  dictionary.
\<close>

record key_info =
  scopes :: "string list"
  rate_limit :: int
  created_at :: real
  expires_at :: real
  metadata :: nat

text \<open>One value of \<^verbatim>\<open>self._request_tracker\<close>.\<close>

record tracker =
  requests :: int
  window_start :: real

text \<open>
  The attributes of an \<^verbatim>\<open>APIKeyManager\<close>, and the dictionary objects that metadata
  addresses refer to: \<open>dict_objects\<close> gives the content at each address, \<open>next_object\<close>
  is the address that the next new dictionary gets.
\<close>

record manager =
  api_keys :: "string \<rightharpoonup> key_info"
  request_tracker :: "string \<rightharpoonup> tracker"
  rate_limit_window :: real
  default_rate_limit :: int
  dict_objects :: "nat \<Rightarrow> (string \<rightharpoonup> py_value)"
  next_object :: nat

text \<open>\<^verbatim>\<open>d[k]\<close> on a dictionary raises \<^verbatim>\<open>KeyError\<close> when the key is missing.\<close>

definition subscript :: "(string \<rightharpoonup> 'v) \<Rightarrow> string \<Rightarrow> py_error + 'v" where
  "subscript d k = (case d k of None \<Rightarrow> Inl (KeyError k) | Some v \<Rightarrow> Inr v)"

text \<open>A dictionary display creates a new object; the result is its address.\<close>

definition new_dict :: "manager \<Rightarrow> (string \<rightharpoonup> py_value) \<Rightarrow> nat \<times> manager" where
  "new_dict st d =
     (next_object st,
      st\<lparr>dict_objects := (dict_objects st)(next_object st := d),
         next_object := Suc (next_object st)\<rparr>)"

text \<open>
  \<^verbatim>\<open>float + int\<close> converts the \<^verbatim>\<open>int\<close> to a double, rounding to nearest, and raises
  \<^verbatim>\<open>OverflowError\<close> when that is beyond the largest double: from
  \<open>2 ^ 1024 - 2 ^ 970\<close> on, in absolute value.
\<close>

definition int_to_float_overflows :: "int \<Rightarrow> bool" where
  "int_to_float_overflows n = (2 ^ 1024 - 2 ^ 970 \<le> \<bar>n\<bar>)"

subsection \<open>Construction and the default key\<close>

text \<open>
  \<^verbatim>\<open>_load_default_api_key\<close>. \<open>env\<close> is the value of the environment variable
  \<^verbatim>\<open>MCP_API_KEY\<close>, \<open>None\<close> when it is not set; \<open>t1\<close> and \<open>t2\<close> are the two clock
  readings, for \<^verbatim>\<open>created_at\<close> and for \<^verbatim>\<open>expires_at\<close>. The value of the variable
  is given in its encoded form too; with a value that cannot be encoded the
  constructor raises and there is no manager.
\<close>

definition load_default_api_key ::
  "hasher \<Rightarrow> manager \<Rightarrow> string option \<Rightarrow> real \<Rightarrow> real \<Rightarrow> manager" where
  "load_default_api_key hash_key st env t1 t2 =
     (let default_key = (case env of None \<Rightarrow> ''test-mcp-api-key-local-dev'' | Some v \<Rightarrow> v);
          default_key_hash = hash_key default_key
      in if api_keys st default_key_hash = None
         then
           let (metadata1, st1) =
                 new_dict st [''name'' \<mapsto> PyStr ''Default Development API Key'',
                              ''created_by'' \<mapsto> PyStr ''system'']
           in st1\<lparr>api_keys := (api_keys st1)(default_key_hash \<mapsto>
                \<lparr>scopes = [''*''],
                 rate_limit = default_rate_limit st1,
                 created_at = t1,
                 expires_at = t2 + (365 * 24 * 3600),
                 metadata = metadata1\<rparr>)\<rparr>
         else st)"

text \<open>\<^verbatim>\<open>__init__\<close>. No metadata dictionary is known to the new manager yet.\<close>

definition manager_init :: "hasher \<Rightarrow> string option \<Rightarrow> real \<Rightarrow> real \<Rightarrow> manager" where
  "manager_init hash_key env t1 t2 =
     load_default_api_key hash_key
       \<lparr>api_keys = Map.empty, request_tracker = Map.empty,
        rate_limit_window = 3600, default_rate_limit = 1000,
        dict_objects = (\<lambda>a. Map.empty), next_object = 0\<rparr> env t1 t2"

subsection \<open>The operations of the manager\<close>

text \<open>
  \<^verbatim>\<open>validate_key\<close>. The middleware passes what \<^verbatim>\<open>headers.get\<close> returned, so the
  key may be \<^verbatim>\<open>None\<close>; \<^verbatim>\<open>not api_key\<close> holds for \<^verbatim>\<open>None\<close> and for the empty
  string. In the scope test, \<^verbatim>\<open>scope and ...\<close> is false for \<^verbatim>\<open>None\<close> and for the
  empty string. The clock is read once, in the expiry test. A credential that is
  present is given by its encoded form; \<open>validate_key_call\<close> below is the method with
  the encoding step.
\<close>

definition validate_key ::
  "hasher \<Rightarrow> manager \<Rightarrow> string option \<Rightarrow> string option \<Rightarrow> real
     \<Rightarrow> (py_error + bool \<times> string option) \<times> manager" where
  "validate_key hash_key st api_key scope now =
     (case api_key of
        None \<Rightarrow> (Inr (False, Some ''API key is required''), st)
      | Some k \<Rightarrow>
          if k = [] then (Inr (False, Some ''API key is required''), st)
          else
            let key_hash = hash_key k in
            if api_keys st key_hash = None
            then (Inr (False, Some ''Invalid API key''), st)
            else
              (case subscript (api_keys st) key_hash of
                 Inl e \<Rightarrow> (Inl e, st)
               | Inr info \<Rightarrow>
                   if expires_at info < now
                   then (Inr (False, Some ''API key has expired''), st)
                   else
                     (case scope of
                        None \<Rightarrow> (Inr (True, None), st)
                      | Some s \<Rightarrow>
                          if s \<noteq> [] \<and> s \<notin> set (scopes info) \<and> ''*'' \<notin> set (scopes info)
                          then (Inr (False,
                                  Some (''API key does not have permission for '' @ s)), st)
                          else (Inr (True, None), st))))"

text \<open>
  \<^verbatim>\<open>check_rate_limit\<close>. \<open>t_init\<close> is the clock reading that a new tracker gets,
  \<open>current_time\<close> the reading of the window test. The tracker is stored before the
  record is looked up, so a \<^verbatim>\<open>KeyError\<close> from \<^verbatim>\<open>self._api_keys[key_hash]\<close>
  leaves the new tracker behind. The record always has the key \<^verbatim>\<open>rate_limit\<close>,
  so the default of \<^verbatim>\<open>key_info.get\<close> is never taken.
\<close>

definition check_rate_limit ::
  "hasher \<Rightarrow> manager \<Rightarrow> string \<Rightarrow> real \<Rightarrow> real
     \<Rightarrow> (py_error + bool \<times> string option) \<times> manager" where
  "check_rate_limit hash_key st api_key t_init current_time =
     (let key_hash = hash_key api_key;
          st1 = (if request_tracker st key_hash = None
                 then st\<lparr>request_tracker := (request_tracker st)(key_hash \<mapsto>
                        \<lparr>requests = 0, window_start = t_init\<rparr>)\<rparr>
                 else st)
      in case subscript (request_tracker st1) key_hash of
           Inl e \<Rightarrow> (Inl e, st1)
         | Inr tr \<Rightarrow>
             (case subscript (api_keys st1) key_hash of
                Inl e \<Rightarrow> (Inl e, st1)
              | Inr info \<Rightarrow>
                  let tr1 = (if current_time - window_start tr > rate_limit_window st1
                             then tr\<lparr>requests := 0, window_start := current_time\<rparr>
                             else tr);
                      st2 = st1\<lparr>request_tracker := (request_tracker st1)(key_hash \<mapsto> tr1)\<rparr>
                  in if requests tr1 \<ge> rate_limit info
                     then (Inr (False, Some ''API rate limit exceeded''), st2)
                     else (Inr (True, None),
                           st2\<lparr>request_tracker := (request_tracker st2)(key_hash \<mapsto>
                                 tr1\<lparr>requests := requests tr1 + 1\<rparr>)\<rparr>)))"

text \<open>
  \<^verbatim>\<open>generate_key\<close>. \<open>uuid_hex\<close> is \<^verbatim>\<open>uuid.uuid4().hex\<close>; \<open>t1\<close> and \<open>t2\<close> are
  the clock readings for \<^verbatim>\<open>created_at\<close> and \<^verbatim>\<open>expires_at\<close>. A caller that
  leaves \<^verbatim>\<open>expires_in_days\<close> out passes its default, 90. \<open>metadata_arg\<close> is the
  address of the caller's dictionary, which the record then shares; for \<^verbatim>\<open>None\<close>
  the record gets a new empty dictionary. The sum for \<^verbatim>\<open>expires_at\<close> is computed
  before the record is stored, so an \<^verbatim>\<open>OverflowError\<close> leaves the manager as it was
  (the new empty dictionary, which nothing refers to, is dropped).
\<close>

definition generate_key ::
  "hasher \<Rightarrow> manager \<Rightarrow> string \<Rightarrow> string list option \<Rightarrow> int option \<Rightarrow> int
     \<Rightarrow> nat option \<Rightarrow> real \<Rightarrow> real \<Rightarrow> (py_error + string) \<times> manager" where
  "generate_key hash_key st uuid_hex scopes_arg rate_limit_arg expires_in_days metadata_arg t1 t2 =
     (let api_key = ''sk-'' @ uuid_hex;
          key_hash = hash_key api_key;
          scopes1 = (case scopes_arg of None \<Rightarrow> [''*''] | Some s \<Rightarrow> s);
          rate_limit1 = (case rate_limit_arg of None \<Rightarrow> default_rate_limit st | Some r \<Rightarrow> r);
          (metadata1, st1) = (case metadata_arg of None \<Rightarrow> new_dict st Map.empty
                              | Some a \<Rightarrow> (a, st))
      in if int_to_float_overflows (expires_in_days * 24 * 3600)
         then (Inl OverflowError, st)
         else (Inr api_key,
               st1\<lparr>api_keys := (api_keys st1)(key_hash \<mapsto>
                    \<lparr>scopes = scopes1,
                     rate_limit = rate_limit1,
                     created_at = t1,
                     expires_at = t2 + (real_of_int expires_in_days * 24 * 3600),
                     metadata = metadata1\<rparr>)\<rparr>))"

text \<open>\<^verbatim>\<open>revoke_key\<close>.\<close>

definition revoke_key :: "hasher \<Rightarrow> manager \<Rightarrow> string \<Rightarrow> bool \<times> manager" where
  "revoke_key hash_key st api_key =
     (let key_hash = hash_key api_key in
      if api_keys st key_hash \<noteq> None
      then (True,
            (st\<lparr>api_keys := (api_keys st)(key_hash := None)\<rparr>)
              \<lparr>request_tracker :=
                 (if request_tracker st key_hash \<noteq> None
                  then (request_tracker st)(key_hash := None)
                  else request_tracker st)\<rparr>)
      else (False, st))"

text \<open>
  \<^verbatim>\<open>update_key\<close>. The record is changed in place, field by field: when the sum for
  \<^verbatim>\<open>expires_at\<close> raises \<^verbatim>\<open>OverflowError\<close>, \<open>scopes\<close> and \<open>rate_limit\<close> have
  been stored already. The clock is read once, when \<^verbatim>\<open>expires_in_days\<close> is given.
  \<^verbatim>\<open>key_info["metadata"].update(metadata)\<close> changes the dictionary object that the
  record refers to, for every holder of that object; \<^verbatim>\<open>dict.update\<close> is \<open>++\<close> on
  maps: the keys of the argument override. The argument is only read, and is given
  by its content.
\<close>

definition update_key ::
  "hasher \<Rightarrow> manager \<Rightarrow> string \<Rightarrow> string list option \<Rightarrow> int option \<Rightarrow> int option
     \<Rightarrow> (string \<rightharpoonup> py_value) option \<Rightarrow> real \<Rightarrow> (py_error + bool) \<times> manager" where
  "update_key hash_key st api_key scopes_arg rate_limit_arg expires_in_days metadata_arg now =
     (let key_hash = hash_key api_key in
      if api_keys st key_hash = None then (Inr False, st)
      else
        (case subscript (api_keys st) key_hash of
           Inl e \<Rightarrow> (Inl e, st)
         | Inr info \<Rightarrow>
             let info1 = (case scopes_arg of None \<Rightarrow> info | Some s \<Rightarrow> info\<lparr>scopes := s\<rparr>);
                 info2 = (case rate_limit_arg of None \<Rightarrow> info1
                          | Some r \<Rightarrow> info1\<lparr>rate_limit := r\<rparr>)
             in if (case expires_in_days of None \<Rightarrow> False
                    | Some d \<Rightarrow> int_to_float_overflows (d * 24 * 3600))
                then (Inl OverflowError, st\<lparr>api_keys := (api_keys st)(key_hash \<mapsto> info2)\<rparr>)
                else
                  let info3 = (case expires_in_days of None \<Rightarrow> info2
                               | Some d \<Rightarrow>
                                   info2\<lparr>expires_at := now + (real_of_int d * 24 * 3600)\<rparr>);
                      objects1 = (case metadata_arg of None \<Rightarrow> dict_objects st
                                  | Some m \<Rightarrow>
                                      (dict_objects st)(metadata info3 :=
                                         dict_objects st (metadata info3) ++ m))
                  in (Inr True,
                      st\<lparr>api_keys := (api_keys st)(key_hash \<mapsto> info3),
                         dict_objects := objects1\<rparr>)))"

subsection \<open>The methods on an arbitrary \<^verbatim>\<open>str\<close>\<close>

text \<open>
  A \<^verbatim>\<open>str\<close> is a sequence of code points. \<^verbatim>\<open>api_key.encode()\<close> in
  \<^verbatim>\<open>_hash_key\<close> writes it in UTF-8 and raises \<^verbatim>\<open>UnicodeEncodeError\<close> when it
  holds a surrogate code point (U+D800 to U+DFFF).
\<close>

definition surrogate :: "nat \<Rightarrow> bool" where
  "surrogate cp = (55296 \<le> cp \<and> cp \<le> 57343)"

definition utf8 :: "nat \<Rightarrow> string" where
  "utf8 cp =
     (if cp < 128 then [char_of cp]
      else if cp < 2048 then [char_of (192 + cp div 64), char_of (128 + cp mod 64)]
      else if cp < 65536
        then [char_of (224 + cp div 4096), char_of (128 + cp div 64 mod 64),
              char_of (128 + cp mod 64)]
        else [char_of (240 + cp div 262144), char_of (128 + cp div 4096 mod 64),
              char_of (128 + cp div 64 mod 64), char_of (128 + cp mod 64)])"

definition str_encode :: "nat list \<Rightarrow> py_error + string" where
  "str_encode s =
     (if list_ex surrogate s then Inl UnicodeEncodeError else Inr (concat (map utf8 s)))"

text \<open>
  \<^verbatim>\<open>validate_key\<close> on any \<^verbatim>\<open>str\<close> or \<^verbatim>\<open>None\<close>: the test \<^verbatim>\<open>not api_key\<close>, then
  the encoding in \<^verbatim>\<open>_hash_key\<close>, then the rest of the method on the encoded
  credential.
\<close>

definition validate_key_call ::
  "hasher \<Rightarrow> manager \<Rightarrow> nat list option \<Rightarrow> string option \<Rightarrow> real
     \<Rightarrow> (py_error + bool \<times> string option) \<times> manager" where
  "validate_key_call hash_key st api_key scope now =
     (case api_key of
        None \<Rightarrow> (Inr (False, Some ''API key is required''), st)
      | Some s \<Rightarrow>
          if s = [] then (Inr (False, Some ''API key is required''), st)
          else
            (case str_encode s of
               Inl e \<Rightarrow> (Inl e, st)
             | Inr k \<Rightarrow> validate_key hash_key st (Some k) scope now))"

text \<open>
  \<^verbatim>\<open>check_rate_limit\<close> on any \<^verbatim>\<open>str\<close>: the encoding in \<^verbatim>\<open>_hash_key\<close> is its
  first step, before any tracker is stored.
\<close>

definition check_rate_limit_call ::
  "hasher \<Rightarrow> manager \<Rightarrow> nat list \<Rightarrow> real \<Rightarrow> real
     \<Rightarrow> (py_error + bool \<times> string option) \<times> manager" where
  "check_rate_limit_call hash_key st api_key t_init current_time =
     (case str_encode api_key of
        Inl e \<Rightarrow> (Inl e, st)
      | Inr k \<Rightarrow> check_rate_limit hash_key st k t_init current_time)"

subsection \<open>The request gate\<close>

text \<open>
  What \<^verbatim>\<open>dispatch\<close> reads of a request: \<^verbatim>\<open>request.url.path\<close> and
  \<^verbatim>\<open>request.headers\<close>.
\<close>

record request =
  path :: string
  headers :: "string \<rightharpoonup> string"

text \<open>The attributes of an \<^verbatim>\<open>APIKeyMiddleware\<close>.\<close>

record middleware =
  exclude_paths :: "string list"
  header_name :: string

text \<open>
  \<^verbatim>\<open>APIKeyMiddleware.__init__\<close>: \<^verbatim>\<open>exclude_paths or [...]\<close> takes the default
  list for \<^verbatim>\<open>None\<close> and for the empty list.
\<close>

definition middleware_init :: "string list option \<Rightarrow> string \<Rightarrow> middleware" where
  "middleware_init exclude_paths_arg header_name_arg =
     \<lparr>exclude_paths =
        (case exclude_paths_arg of
           None \<Rightarrow> [''/docs'', ''/redoc'', ''/openapi.json'', ''/health'']
         | Some ps \<Rightarrow>
             if ps = [] then [''/docs'', ''/redoc'', ''/openapi.json'', ''/health''] else ps),
      header_name = header_name_arg\<rparr>"

datatype json = JBool bool | JStr string | JNull

text \<open>
  A response of the gate: a \<^verbatim>\<open>JSONResponse\<close> with its status code and the fields
  of its content in order, or the response of the downstream handler as it is.
\<close>

datatype 'r response = JSONResponse int "(string \<times> json) list" | Downstream 'r

text \<open>
  The calls that \<^verbatim>\<open>dispatch\<close> makes, in order: into the manager, with the key it
  passes, and into \<^verbatim>\<open>call_next\<close>.
\<close>

datatype call = ValidateKey "string option" | CheckRateLimit "string option" | CallNext request

definition json_of_message :: "string option \<Rightarrow> json" where
  "json_of_message m = (case m of None \<Rightarrow> JNull | Some s \<Rightarrow> JStr s)"

definition rejection :: "int \<Rightarrow> string option \<Rightarrow> 'r response" where
  "rejection status_code message =
     JSONResponse status_code [(''success'', JBool False), (''message'', json_of_message message)]"

text \<open>\<^verbatim>\<open>any(request.url.path.startswith(path) for path in self.exclude_paths)\<close>.\<close>

definition excluded :: "middleware \<Rightarrow> request \<Rightarrow> bool" where
  "excluded self req = list_ex (\<lambda>p. prefix p (path req)) (exclude_paths self)"

text \<open>
  \<^verbatim>\<open>dispatch\<close>, on the manager \<open>mgr\<close> (the module's singleton). The result is the
  response (or the exception that escapes), the manager afterwards, and the calls made.
  \<open>t_validate\<close> is the clock reading of \<^verbatim>\<open>validate_key\<close>, \<open>t_init\<close> and \<open>t_check\<close>
  are those of \<^verbatim>\<open>check_rate_limit\<close>; the two readings that only time the request
  for the log are left out. \<^verbatim>\<open>check_rate_limit\<close> hashes its argument with
  \<^verbatim>\<open>api_key.encode()\<close>, which raises \<^verbatim>\<open>AttributeError\<close> on \<^verbatim>\<open>None\<close>. A header
  value is text decoded from the bytes of the request as Latin-1: it holds no
  surrogate, and its encoding does not raise.
\<close>

definition dispatch ::
  "hasher \<Rightarrow> middleware \<Rightarrow> manager \<Rightarrow> request \<Rightarrow> (request \<Rightarrow> 'r) \<Rightarrow> real \<Rightarrow> real \<Rightarrow> real
     \<Rightarrow> (py_error + 'r response) \<times> manager \<times> call list" where
  "dispatch hash_key self mgr req call_next t_validate t_init t_check =
     (if excluded self req
      then (Inr (Downstream (call_next req)), mgr, [CallNext req])
      else
        let api_key = headers req (header_name self) in
        (case validate_key hash_key mgr api_key None t_validate of
           (Inl e, mgr1) \<Rightarrow> (Inl e, mgr1, [ValidateKey api_key])
         | (Inr (is_valid, error_message), mgr1) \<Rightarrow>
             if \<not> is_valid
             then (Inr (rejection 401 error_message), mgr1, [ValidateKey api_key])
             else
               (case api_key of
                  None \<Rightarrow> (Inl AttributeError, mgr1, [ValidateKey api_key, CheckRateLimit api_key])
                | Some k \<Rightarrow>
                    (case check_rate_limit hash_key mgr1 k t_init t_check of
                       (Inl e, mgr2) \<Rightarrow>
                         (Inl e, mgr2, [ValidateKey api_key, CheckRateLimit api_key])
                     | (Inr (is_allowed, limit_message), mgr2) \<Rightarrow>
                         if \<not> is_allowed
                         then (Inr (rejection 429 limit_message), mgr2,
                               [ValidateKey api_key, CheckRateLimit api_key])
                         else (Inr (Downstream (call_next req)), mgr2,
                               [ValidateKey api_key, CheckRateLimit api_key, CallNext req])))))"

subsection \<open>Concrete inputs\<close>

text \<open>
  An injective stand-in for SHA-256, used only where the model is evaluated on a
  concrete input.
\<close>

definition stub_hash :: hasher where
  "stub_hash k = ''#'' @ k"

text \<open>A manager as constructed with no \<^verbatim>\<open>MCP_API_KEY\<close> in the environment, at time 100.\<close>

definition ex_mgr0 :: manager where
  "ex_mgr0 = manager_init stub_hash None 100 100"

text \<open>
  \<open>ex_mgr0\<close> after \<^verbatim>\<open>generate_key(scopes=["read"], rate_limit=3)\<close> has returned
  \<^verbatim>\<open>"sk-k1"\<close>.
\<close>

definition ex_mgr3 :: manager where
  "ex_mgr3 = snd (generate_key stub_hash ex_mgr0 ''k1'' (Some [''read'']) (Some 3) 90 None 110 110)"

text \<open>
  \<open>ex_mgr0\<close> after \<^verbatim>\<open>generate_key(rate_limit=0)\<close> has returned \<^verbatim>\<open>"sk-k0"\<close> and
  \<^verbatim>\<open>check_rate_limit("sk-k0")\<close> has been called once, at time 200.
\<close>

definition ex_mgr_zero :: manager where
  "ex_mgr_zero =
     snd (check_rate_limit stub_hash
            (snd (generate_key stub_hash ex_mgr0 ''k0'' None (Some 0) 90 None 110 110))
            ''sk-k0'' 200 200)"

text \<open>
  \<open>ex_mgr0\<close> after \<^verbatim>\<open>check_rate_limit("nokey")\<close> has been called once, at time 200,
  for a key that was never issued.
\<close>

definition ex_mgr_orphan :: manager where
  "ex_mgr_orphan = snd (check_rate_limit stub_hash ex_mgr0 ''nokey'' 200 200)"

text \<open>
  \<open>ex_mgr0\<close> after \<^verbatim>\<open>generate_key(expires_in_days=-1)\<close> has returned
  \<^verbatim>\<open>"sk-k9"\<close>.
\<close>

definition ex_mgr_past :: manager where
  "ex_mgr_past = snd (generate_key stub_hash ex_mgr0 ''k9'' None None (- 1) None 110 110)"

text \<open>A manager constructed with \<^verbatim>\<open>MCP_API_KEY\<close> set to the empty string.\<close>

definition ex_mgr_empty :: manager where
  "ex_mgr_empty = manager_init stub_hash (Some []) 100 100"

text \<open>
  \<open>ex_mgr0\<close> after a caller has made the dictionary \<^verbatim>\<open>{"team": "ops"}\<close> (it gets
  address 1) and has passed it as \<^verbatim>\<open>metadata\<close> to two \<^verbatim>\<open>generate_key\<close> calls, which
  returned \<^verbatim>\<open>"sk-ka"\<close> and \<^verbatim>\<open>"sk-kb"\<close>.
\<close>

definition ex_mgr_shared :: manager where
  "ex_mgr_shared =
     snd (generate_key stub_hash
            (snd (generate_key stub_hash
                    (snd (new_dict ex_mgr0 [''team'' \<mapsto> PyStr ''ops'']))
                    ''ka'' None None 90 (Some 1) 110 110))
            ''kb'' None None 90 (Some 1) 120 120)"

text \<open>The code points of \<^verbatim>\<open>"sk-k1"\<close>, and a \<^verbatim>\<open>str\<close> that is the lone surrogate U+DC80.\<close>

definition ex_str_k1 :: "nat list" where
  "ex_str_k1 = [115, 107, 45, 107, 49]"

definition ex_str_surrogate :: "nat list" where
  "ex_str_surrogate = [56448]"

text \<open>A gate with the default settings, and a downstream handler that echoes the path.\<close>

definition ex_gate :: middleware where
  "ex_gate = middleware_init None ''X-API-Key''"

definition ex_handler :: "request \<Rightarrow> string" where
  "ex_handler req = ''handled '' @ path req"

subsection \<open>Histories of a manager\<close>

text \<open>
  The managers that calls of the state-changing methods produce, each with the last
  clock reading taken: construction, a further \<^verbatim>\<open>_load_default_api_key\<close>,
  \<^verbatim>\<open>generate_key\<close>, \<^verbatim>\<open>update_key\<close>, \<^verbatim>\<open>revoke_key\<close> and
  \<^verbatim>\<open>check_rate_limit\<close>, and between them any change that callers make to the
  dictionary objects. Clock readings never decrease along a history, and every
  \<^verbatim>\<open>expires_in_days\<close> that is passed is strictly positive; every other argument is
  arbitrary.
\<close>

inductive reachable :: "hasher \<Rightarrow> real \<Rightarrow> manager \<Rightarrow> bool" for hash_key :: hasher where
  reach_init:
    "t1 \<le> t2 \<Longrightarrow> reachable hash_key t2 (manager_init hash_key env t1 t2)"
| reach_load:
    "reachable hash_key now st \<Longrightarrow> now \<le> t1 \<Longrightarrow> t1 \<le> t2 \<Longrightarrow>
     reachable hash_key t2 (load_default_api_key hash_key st env t1 t2)"
| reach_generate:
    "reachable hash_key now st \<Longrightarrow> now \<le> t1 \<Longrightarrow> t1 \<le> t2 \<Longrightarrow> 0 < days \<Longrightarrow>
     reachable hash_key t2 (snd (generate_key hash_key st uuid_hex sc rl days md t1 t2))"
| reach_update:
    "reachable hash_key now st \<Longrightarrow> now \<le> t \<Longrightarrow> (\<forall>d. days = Some d \<longrightarrow> 0 < d) \<Longrightarrow>
     reachable hash_key t (snd (update_key hash_key st k sc rl days md t))"
| reach_revoke:
    "reachable hash_key now st \<Longrightarrow> reachable hash_key now (snd (revoke_key hash_key st k))"
| reach_check:
    "reachable hash_key now st \<Longrightarrow> now \<le> t1 \<Longrightarrow> t1 \<le> t2 \<Longrightarrow>
     reachable hash_key t2 (snd (check_rate_limit hash_key st k t1 t2))"
| reach_caller:
    "reachable hash_key now st \<Longrightarrow>
     reachable hash_key now (st\<lparr>dict_objects := objects, next_object := n\<rparr>)"

text \<open>
  Every stored record was created no later than \<open>now\<close> and expires after it was
  created.
\<close>

definition times_ok :: "real \<Rightarrow> manager \<Rightarrow> bool" where
  "times_ok now st =
     (\<forall>h info. api_keys st h = Some info \<longrightarrow>
        created_at info \<le> now \<and> created_at info < expires_at info)"

section \<open>Properties\<close>

subsection \<open>Evaluating the concrete inputs\<close>

lemma ex_mgr0_keys:
  "api_keys ex_mgr0 h =
     (if h = ''#test-mcp-api-key-local-dev''
      then Some \<lparr>scopes = [''*''], rate_limit = 1000, created_at = 100,
                 expires_at = 31536100,
                 metadata = 0\<rparr>
      else None)"
  by (simp add: ex_mgr0_def manager_init_def load_default_api_key_def new_dict_def stub_hash_def Let_def)

lemma ex_mgr0_rest:
  "request_tracker ex_mgr0 = Map.empty" "rate_limit_window ex_mgr0 = 3600"
  "default_rate_limit ex_mgr0 = 1000"
  by (simp_all add: ex_mgr0_def manager_init_def load_default_api_key_def new_dict_def Let_def)

lemma ex_mgr0_next: "next_object ex_mgr0 = Suc 0"
  by (simp add: ex_mgr0_def manager_init_def load_default_api_key_def new_dict_def Let_def)

lemma ex_mgr3_key:
  "api_keys ex_mgr3 (stub_hash ''sk-k1'') =
     Some \<lparr>scopes = [''read''], rate_limit = 3, created_at = 110, expires_at = 7776110,
           metadata = 1\<rparr>"
  by (simp add: ex_mgr3_def generate_key_def new_dict_def int_to_float_overflows_def stub_hash_def Let_def ex_mgr0_next)

lemma ex_mgr3_rest:
  "request_tracker ex_mgr3 = Map.empty" "rate_limit_window ex_mgr3 = 3600"
  by (simp_all add: ex_mgr3_def generate_key_def new_dict_def int_to_float_overflows_def ex_mgr0_rest Let_def)

subsection \<open>One call of \<open>check_rate_limit\<close>\<close>

text \<open>
  With a stored record the call never raises: it takes the tracker (a new one when
  there is none), resets it when the window has run out, and then tests the limit.
\<close>

lemma check_rate_limit_found:
  assumes "api_keys st (hash_key k) = Some info"
  shows "check_rate_limit hash_key st k t_init now =
    (let tr = (case request_tracker st (hash_key k) of
                 None \<Rightarrow> \<lparr>requests = 0, window_start = t_init\<rparr> | Some t \<Rightarrow> t);
         tr1 = (if now - window_start tr > rate_limit_window st
                then tr\<lparr>requests := 0, window_start := now\<rparr> else tr)
     in if requests tr1 \<ge> rate_limit info
        then (Inr (False, Some ''API rate limit exceeded''),
              st\<lparr>request_tracker := (request_tracker st)(hash_key k \<mapsto> tr1)\<rparr>)
        else (Inr (True, None),
              st\<lparr>request_tracker := (request_tracker st)(hash_key k \<mapsto>
                   tr1\<lparr>requests := requests tr1 + 1\<rparr>)\<rparr>))"
proof (cases "request_tracker st (hash_key k)")
  case None
  with assms show ?thesis
    by (simp add: check_rate_limit_def subscript_def Let_def)
next
  case (Some t)
  with assms show ?thesis
    by (simp add: check_rate_limit_def subscript_def Let_def)
qed

text \<open>Without a stored record the call raises, after the tracker has been stored.\<close>

lemma check_rate_limit_missing:
  assumes "api_keys st (hash_key k) = None"
  shows "check_rate_limit hash_key st k t_init now =
    (Inl (KeyError (hash_key k)),
     if request_tracker st (hash_key k) = None
     then st\<lparr>request_tracker := (request_tracker st)(hash_key k \<mapsto>
            \<lparr>requests = 0, window_start = t_init\<rparr>)\<rparr>
     else st)"
  using assms
  by (cases "request_tracker st (hash_key k)")
     (simp_all add: check_rate_limit_def subscript_def Let_def)

lemma tracker_put_same:
  "request_tracker st h = Some tr \<Longrightarrow>
   st\<lparr>request_tracker := (request_tracker st)(h \<mapsto> tr)\<rparr> = st"
  by (simp add: map_upd_triv)

lemma ex_mgr_zero_key:
  "api_keys ex_mgr_zero (stub_hash ''sk-k0'') =
     Some \<lparr>scopes = [''*''], rate_limit = 0, created_at = 110, expires_at = 7776110,
           metadata = 1\<rparr>"
  by (simp add: ex_mgr_zero_def check_rate_limit_def subscript_def Let_def generate_key_def new_dict_def int_to_float_overflows_def
      stub_hash_def ex_mgr0_rest ex_mgr0_next)

lemma ex_mgr_zero_rest:
  "request_tracker ex_mgr_zero (stub_hash ''sk-k0'') = Some \<lparr>requests = 0, window_start = 200\<rparr>"
  "rate_limit_window ex_mgr_zero = 3600"
  by (simp_all add: ex_mgr_zero_def check_rate_limit_def subscript_def Let_def generate_key_def new_dict_def int_to_float_overflows_def
      stub_hash_def ex_mgr0_rest ex_mgr0_next)

lemma ex_mgr_orphan_eval:
  "api_keys ex_mgr_orphan (stub_hash ''nokey'') = None"
  "request_tracker ex_mgr_orphan (stub_hash ''nokey'') = Some \<lparr>requests = 0, window_start = 200\<rparr>"
  "rate_limit_window ex_mgr_orphan = 3600"
  by (simp_all add: ex_mgr_orphan_def check_rate_limit_def subscript_def Let_def
      ex_mgr0_keys ex_mgr0_rest stub_hash_def)

subsection \<open>Rate limiting inside a window\<close>

text \<open>
  C1. For a stored record and its tracker, when the window has not run out: a call
  with \<open>requests\<close> below the record's limit returns \<^verbatim>\<open>(True, None)\<close> and adds
  exactly 1 to \<open>requests\<close>, changing nothing else; a call with \<open>requests\<close> at or
  above the limit returns \<^verbatim>\<open>(False, "API rate limit exceeded")\<close> and leaves the
  manager as it was. In particular, for a record with limit 3 and no tracker yet, of
  four calls inside the window opened by the first, the first three succeed, counting
  1, 2 and 3, and the fourth fails and changes nothing.
\<close>

theorem check_rate_limit_within_window:
  "(api_keys st (hash_key k) = Some info \<and> request_tracker st (hash_key k) = Some tr
      \<and> \<not> (now - window_start tr > rate_limit_window st) \<longrightarrow>
     (requests tr < rate_limit info \<longrightarrow>
        check_rate_limit hash_key st k t_init now =
          (Inr (True, None),
           st\<lparr>request_tracker := (request_tracker st)(hash_key k \<mapsto>
                tr\<lparr>requests := requests tr + 1\<rparr>)\<rparr>)) \<and>
     (requests tr \<ge> rate_limit info \<longrightarrow>
        check_rate_limit hash_key st k t_init now =
          (Inr (False, Some ''API rate limit exceeded''), st)))
   \<and>
   (api_keys st (hash_key k) = Some info \<and> rate_limit info = 3
      \<and> request_tracker st (hash_key k) = None
      \<and> c1 - i1 \<le> rate_limit_window st \<and> c2 - i1 \<le> rate_limit_window st
      \<and> c3 - i1 \<le> rate_limit_window st \<and> c4 - i1 \<le> rate_limit_window st \<longrightarrow>
     (let r1 = check_rate_limit hash_key st k i1 c1;
          r2 = check_rate_limit hash_key (snd r1) k i2 c2;
          r3 = check_rate_limit hash_key (snd r2) k i3 c3;
          r4 = check_rate_limit hash_key (snd r3) k i4 c4
      in fst r1 = Inr (True, None)
         \<and> request_tracker (snd r1) (hash_key k) = Some \<lparr>requests = 1, window_start = i1\<rparr>
         \<and> fst r2 = Inr (True, None)
         \<and> request_tracker (snd r2) (hash_key k) = Some \<lparr>requests = 2, window_start = i1\<rparr>
         \<and> fst r3 = Inr (True, None)
         \<and> request_tracker (snd r3) (hash_key k) = Some \<lparr>requests = 3, window_start = i1\<rparr>
         \<and> fst r4 = Inr (False, Some ''API rate limit exceeded'')
         \<and> snd r4 = snd r3))"
  by (simp add: check_rate_limit_found tracker_put_same Let_def)

theorem check_rate_limit_within_window_witness:
  "(let r1 = check_rate_limit stub_hash ex_mgr3 ''sk-k1'' 200 200;
        r2 = check_rate_limit stub_hash (snd r1) ''sk-k1'' 210 210;
        r3 = check_rate_limit stub_hash (snd r2) ''sk-k1'' 220 220;
        r4 = check_rate_limit stub_hash (snd r3) ''sk-k1'' 230 230
    in fst r1 = Inr (True, None)
       \<and> request_tracker (snd r1) (stub_hash ''sk-k1'') = Some \<lparr>requests = 1, window_start = 200\<rparr>
       \<and> fst r2 = Inr (True, None)
       \<and> request_tracker (snd r2) (stub_hash ''sk-k1'') = Some \<lparr>requests = 2, window_start = 200\<rparr>
       \<and> fst r3 = Inr (True, None)
       \<and> request_tracker (snd r3) (stub_hash ''sk-k1'') = Some \<lparr>requests = 3, window_start = 200\<rparr>
       \<and> fst r4 = Inr (False, Some ''API rate limit exceeded'')
       \<and> snd r4 = snd r3)
   \<and> check_rate_limit stub_hash ex_mgr_zero ''sk-k0'' 300 300 =
       (Inr (False, Some ''API rate limit exceeded''), ex_mgr_zero)"
proof -
  note thm1 = check_rate_limit_within_window
    [of ex_mgr3 stub_hash "''sk-k1''" "the (api_keys ex_mgr3 (stub_hash ''sk-k1''))"
        undefined 0 undefined 200 200 210 220 230 210 220 230]
  note thm2 = check_rate_limit_within_window
    [of ex_mgr_zero stub_hash "''sk-k0''" "the (api_keys ex_mgr_zero (stub_hash ''sk-k0''))"
        "\<lparr>requests = 0, window_start = 200\<rparr>" 300 300]
  have a: "api_keys ex_mgr3 (stub_hash ''sk-k1'') =
             Some (the (api_keys ex_mgr3 (stub_hash ''sk-k1'')))"
    "rate_limit (the (api_keys ex_mgr3 (stub_hash ''sk-k1''))) = 3"
    by (simp_all add: ex_mgr3_key)
  have b: "api_keys ex_mgr_zero (stub_hash ''sk-k0'') =
             Some (the (api_keys ex_mgr_zero (stub_hash ''sk-k0'')))"
    "rate_limit (the (api_keys ex_mgr_zero (stub_hash ''sk-k0''))) = 0"
    by (simp_all add: ex_mgr_zero_key)
  from thm1 a have one: "(let r1 = check_rate_limit stub_hash ex_mgr3 ''sk-k1'' 200 200;
        r2 = check_rate_limit stub_hash (snd r1) ''sk-k1'' 210 210;
        r3 = check_rate_limit stub_hash (snd r2) ''sk-k1'' 220 220;
        r4 = check_rate_limit stub_hash (snd r3) ''sk-k1'' 230 230
    in fst r1 = Inr (True, None)
       \<and> request_tracker (snd r1) (stub_hash ''sk-k1'') = Some \<lparr>requests = 1, window_start = 200\<rparr>
       \<and> fst r2 = Inr (True, None)
       \<and> request_tracker (snd r2) (stub_hash ''sk-k1'') = Some \<lparr>requests = 2, window_start = 200\<rparr>
       \<and> fst r3 = Inr (True, None)
       \<and> request_tracker (snd r3) (stub_hash ''sk-k1'') = Some \<lparr>requests = 3, window_start = 200\<rparr>
       \<and> fst r4 = Inr (False, Some ''API rate limit exceeded'')
       \<and> snd r4 = snd r3)"
    by (simp add: ex_mgr3_rest)
  from thm2 b have two: "check_rate_limit stub_hash ex_mgr_zero ''sk-k0'' 300 300 =
       (Inr (False, Some ''API rate limit exceeded''), ex_mgr_zero)"
    by (simp add: ex_mgr_zero_rest)
  from one two show ?thesis by simp
qed

subsection \<open>The window reset\<close>

lemma tracker_overwrite:
  "(tr :: tracker)\<lparr>requests := a, window_start := b\<rparr> = \<lparr>requests = a, window_start = b\<rparr>"
  by (cases tr) simp


text \<open>
  C2, amended. For a credential with a stored record and a tracker: when
  \<open>now - window_start\<close> exceeds the window length, the call resets the tracker
  (\<open>requests\<close> to 0, \<open>window_start\<close> to \<open>now\<close>) before it tests the limit; it then
  succeeds and leaves \<open>requests\<close> at 1 when the record's limit is at least 1, and
  fails and leaves \<open>requests\<close> at 0 when the limit is 0 or negative. For a
  credential with a tracker, with or without a record: when \<open>now - window_start\<close>
  does not exceed the window length, \<open>window_start\<close> stays as it was. The window
  length of a new manager is 3600.

  The claim as written promises success after every expiry: it fails for a record
  issued with \<^verbatim>\<open>rate_limit=0\<close>, and for a tracker left without a record, where the
  call raises before the reset.
\<close>

theorem check_rate_limit_window_reset:
  "(api_keys st (hash_key k) = Some info \<and> request_tracker st (hash_key k) = Some tr
      \<and> now - window_start tr > rate_limit_window st \<longrightarrow>
      check_rate_limit hash_key st k t_init now =
        (if 1 \<le> rate_limit info
         then (Inr (True, None),
               st\<lparr>request_tracker := (request_tracker st)(hash_key k \<mapsto>
                    \<lparr>requests = 1, window_start = now\<rparr>)\<rparr>)
         else (Inr (False, Some ''API rate limit exceeded''),
               st\<lparr>request_tracker := (request_tracker st)(hash_key k \<mapsto>
                    \<lparr>requests = 0, window_start = now\<rparr>)\<rparr>)))
   \<and> (request_tracker st (hash_key k) = Some tr
      \<and> \<not> (now - window_start tr > rate_limit_window st) \<longrightarrow>
      map_option window_start
        (request_tracker (snd (check_rate_limit hash_key st k t_init now)) (hash_key k)) =
      Some (window_start tr))
   \<and> rate_limit_window (manager_init hash_key env t1 t2) = 3600"
proof (intro conjI impI)
  assume "api_keys st (hash_key k) = Some info \<and> request_tracker st (hash_key k) = Some tr
      \<and> now - window_start tr > rate_limit_window st"
  then show "check_rate_limit hash_key st k t_init now =
        (if 1 \<le> rate_limit info
         then (Inr (True, None),
               st\<lparr>request_tracker := (request_tracker st)(hash_key k \<mapsto>
                    \<lparr>requests = 1, window_start = now\<rparr>)\<rparr>)
         else (Inr (False, Some ''API rate limit exceeded''),
               st\<lparr>request_tracker := (request_tracker st)(hash_key k \<mapsto>
                    \<lparr>requests = 0, window_start = now\<rparr>)\<rparr>))"
    by (simp add: check_rate_limit_found Let_def tracker_overwrite)
next
  assume h: "request_tracker st (hash_key k) = Some tr
      \<and> \<not> (now - window_start tr > rate_limit_window st)"
  show "map_option window_start
        (request_tracker (snd (check_rate_limit hash_key st k t_init now)) (hash_key k)) =
      Some (window_start tr)"
  proof (cases "api_keys st (hash_key k)")
    case None
    with h show ?thesis by (simp add: check_rate_limit_missing)
  next
    case (Some info)
    with h show ?thesis by (simp add: check_rate_limit_found Let_def)
  qed
next
  show "rate_limit_window (manager_init hash_key env t1 t2) = 3600"
    by (simp add: manager_init_def load_default_api_key_def new_dict_def Let_def)
qed

theorem check_rate_limit_window_reset_witness:
  "check_rate_limit stub_hash (snd (check_rate_limit stub_hash ex_mgr3 ''sk-k1'' 200 200))
       ''sk-k1'' 5000 5000 =
     (Inr (True, None),
      ex_mgr3\<lparr>request_tracker := (request_tracker ex_mgr3)(stub_hash ''sk-k1'' \<mapsto>
           \<lparr>requests = 1, window_start = 5000\<rparr>)\<rparr>)
   \<and> map_option window_start
        (request_tracker (snd (check_rate_limit stub_hash ex_mgr_zero ''sk-k0'' 300 300))
           (stub_hash ''sk-k0'')) = Some 200"
proof -
  let ?st = "snd (check_rate_limit stub_hash ex_mgr3 ''sk-k1'' 200 200)"
  have st: "?st = ex_mgr3\<lparr>request_tracker := (request_tracker ex_mgr3)(stub_hash ''sk-k1'' \<mapsto>
           \<lparr>requests = 1, window_start = 200\<rparr>)\<rparr>"
    by (simp add: check_rate_limit_found [of ex_mgr3 stub_hash "''sk-k1''", OF ex_mgr3_key] ex_mgr3_rest Let_def)
  have "check_rate_limit stub_hash ?st ''sk-k1'' 5000 5000 =
     (Inr (True, None),
      ?st\<lparr>request_tracker := (request_tracker ?st)(stub_hash ''sk-k1'' \<mapsto>
           \<lparr>requests = 1, window_start = 5000\<rparr>)\<rparr>)"
    using check_rate_limit_window_reset
      [of ?st stub_hash "''sk-k1''" "the (api_keys ex_mgr3 (stub_hash ''sk-k1''))"
          "\<lparr>requests = 1, window_start = 200\<rparr>" 5000 5000]
    by (simp add: st ex_mgr3_key ex_mgr3_rest)
  then have one: "check_rate_limit stub_hash ?st ''sk-k1'' 5000 5000 =
     (Inr (True, None),
      ex_mgr3\<lparr>request_tracker := (request_tracker ex_mgr3)(stub_hash ''sk-k1'' \<mapsto>
           \<lparr>requests = 1, window_start = 5000\<rparr>)\<rparr>)"
    by (simp add: st)
  have two: "map_option window_start
        (request_tracker (snd (check_rate_limit stub_hash ex_mgr_zero ''sk-k0'' 300 300))
           (stub_hash ''sk-k0'')) = Some 200"
    using check_rate_limit_window_reset
      [of ex_mgr_zero stub_hash "''sk-k0''" undefined "\<lparr>requests = 0, window_start = 200\<rparr>" 300 300]
    by (simp add: ex_mgr_zero_rest)
  from one two show ?thesis by simp
qed

theorem check_rate_limit_window_reset_counterexample:
  "api_keys ex_mgr_zero (stub_hash ''sk-k0'') \<noteq> None
   \<and> request_tracker ex_mgr_zero (stub_hash ''sk-k0'') =
       Some \<lparr>requests = 0, window_start = 200\<rparr>
   \<and> 5000 - 200 > rate_limit_window ex_mgr_zero
   \<and> fst (check_rate_limit stub_hash ex_mgr_zero ''sk-k0'' 5000 5000) =
       Inr (False, Some ''API rate limit exceeded'')
   \<and> request_tracker (snd (check_rate_limit stub_hash ex_mgr_zero ''sk-k0'' 5000 5000))
        (stub_hash ''sk-k0'') = Some \<lparr>requests = 0, window_start = 5000\<rparr>
   \<and> request_tracker ex_mgr_orphan (stub_hash ''nokey'') =
       Some \<lparr>requests = 0, window_start = 200\<rparr>
   \<and> 5000 - 200 > rate_limit_window ex_mgr_orphan
   \<and> check_rate_limit stub_hash ex_mgr_orphan ''nokey'' 5000 5000 =
       (Inl (KeyError (stub_hash ''nokey'')), ex_mgr_orphan)"
  by (simp add: check_rate_limit_found [of ex_mgr_zero stub_hash "''sk-k0''", OF ex_mgr_zero_key] ex_mgr_zero_key ex_mgr_zero_rest
      check_rate_limit_missing ex_mgr_orphan_eval Let_def)

subsection \<open>A call for a credential without a record\<close>

text \<open>
  C10, amended. For a raw credential whose hash has no stored record,
  \<^verbatim>\<open>check_rate_limit\<close> raises \<^verbatim>\<open>KeyError\<close>; before that, when the hash has no
  tracker yet, it has stored a fresh tracker (\<open>requests\<close> 0, \<open>window_start\<close> the
  clock reading), and when the hash already has a tracker it has left that one as it
  is. Either way the manager afterwards holds a tracker for a hash without a record,
  and nothing else has changed.

  The claim as written has a fresh tracker stored on every such call: a second call
  for the same credential keeps the tracker of the first.
\<close>

theorem check_rate_limit_without_record:
  "api_keys st (hash_key k) = None \<longrightarrow>
     check_rate_limit hash_key st k t_init now =
       (Inl (KeyError (hash_key k)),
        if request_tracker st (hash_key k) = None
        then st\<lparr>request_tracker := (request_tracker st)(hash_key k \<mapsto>
               \<lparr>requests = 0, window_start = t_init\<rparr>)\<rparr>
        else st)
     \<and> request_tracker (snd (check_rate_limit hash_key st k t_init now)) (hash_key k) \<noteq> None
     \<and> api_keys (snd (check_rate_limit hash_key st k t_init now)) (hash_key k) = None"
  by (simp add: check_rate_limit_missing)

theorem check_rate_limit_without_record_witness:
  "check_rate_limit stub_hash ex_mgr0 ''nokey'' 200 200 =
     (Inl (KeyError (stub_hash ''nokey'')),
      ex_mgr0\<lparr>request_tracker := (request_tracker ex_mgr0)(stub_hash ''nokey'' \<mapsto>
           \<lparr>requests = 0, window_start = 200\<rparr>)\<rparr>)
   \<and> request_tracker (snd (check_rate_limit stub_hash ex_mgr0 ''nokey'' 200 200))
        (stub_hash ''nokey'') \<noteq> None
   \<and> api_keys (snd (check_rate_limit stub_hash ex_mgr0 ''nokey'' 200 200))
        (stub_hash ''nokey'') = None"
  using check_rate_limit_without_record [of ex_mgr0 stub_hash "''nokey''" 200 200]
  by (simp add: ex_mgr0_keys ex_mgr0_rest stub_hash_def)

theorem check_rate_limit_without_record_counterexample:
  "api_keys ex_mgr_orphan (stub_hash ''nokey'') = None
   \<and> fst (check_rate_limit stub_hash ex_mgr_orphan ''nokey'' 300 300) =
       Inl (KeyError (stub_hash ''nokey''))
   \<and> request_tracker (snd (check_rate_limit stub_hash ex_mgr_orphan ''nokey'' 300 300))
        (stub_hash ''nokey'') = Some \<lparr>requests = 0, window_start = 200\<rparr>
   \<and> request_tracker (snd (check_rate_limit stub_hash ex_mgr_orphan ''nokey'' 300 300))
        (stub_hash ''nokey'') \<noteq> Some \<lparr>requests = 0, window_start = 300\<rparr>"
  by (simp add: check_rate_limit_missing ex_mgr_orphan_eval)

subsection \<open>Validation\<close>

text \<open>
  With a stored record, \<^verbatim>\<open>validate_key\<close> runs the expiry test and the scope test;
  the subscript after the membership test never raises.
\<close>

lemma validate_key_found:
  assumes "k \<noteq> []" and "api_keys st (hash_key k) = Some info"
  shows "validate_key hash_key st (Some k) scope now =
    (if expires_at info < now then (Inr (False, Some ''API key has expired''), st)
     else case scope of
            None \<Rightarrow> (Inr (True, None), st)
          | Some s \<Rightarrow>
              if s \<noteq> [] \<and> s \<notin> set (scopes info) \<and> ''*'' \<notin> set (scopes info)
              then (Inr (False, Some (''API key does not have permission for '' @ s)), st)
              else (Inr (True, None), st))"
  using assms by (simp add: validate_key_def subscript_def Let_def)

lemma validate_key_unknown:
  assumes "k \<noteq> []" and "api_keys st (hash_key k) = None"
  shows "validate_key hash_key st (Some k) scope now = (Inr (False, Some ''Invalid API key''), st)"
  using assms by (simp add: validate_key_def Let_def)

lemma validate_key_absent:
  "validate_key hash_key st None scope now = (Inr (False, Some ''API key is required''), st)"
  "validate_key hash_key st (Some []) scope now = (Inr (False, Some ''API key is required''), st)"
  by (simp_all add: validate_key_def)

text \<open>
  C3, amended. \<^verbatim>\<open>validate_key\<close> returns, with the manager unchanged in every case:
  \<^verbatim>\<open>(False, "API key is required")\<close> when the credential is absent or empty;
  otherwise \<^verbatim>\<open>(False, "Invalid API key")\<close> when no record is stored for its hash;
  otherwise \<^verbatim>\<open>(False, "API key has expired")\<close> when \<open>now > expires_at\<close>; otherwise
  \<^verbatim>\<open>(False, "API key does not have permission for <scope>")\<close> when a non-empty
  scope is given, the record's scopes lack it and lack \<^verbatim>\<open>"*"\<close>; otherwise
  \<^verbatim>\<open>(True, None)\<close>, which includes an empty scope string.

  The claim as written denies every given scope that the record lacks: the test
  \<^verbatim>\<open>if scope and ...\<close> lets the empty string through as it lets \<^verbatim>\<open>None\<close> through.
\<close>

theorem validate_key_cases:
  "(api_key = None \<or> api_key = Some [] \<longrightarrow>
      validate_key hash_key st api_key scope now =
        (Inr (False, Some ''API key is required''), st))
   \<and> (api_key = Some k \<and> k \<noteq> [] \<and> api_keys st (hash_key k) = None \<longrightarrow>
      validate_key hash_key st api_key scope now = (Inr (False, Some ''Invalid API key''), st))
   \<and> (api_key = Some k \<and> k \<noteq> [] \<and> api_keys st (hash_key k) = Some info
        \<and> now > expires_at info \<longrightarrow>
      validate_key hash_key st api_key scope now =
        (Inr (False, Some ''API key has expired''), st))
   \<and> (api_key = Some k \<and> k \<noteq> [] \<and> api_keys st (hash_key k) = Some info
        \<and> \<not> now > expires_at info
        \<and> scope = Some s \<and> s \<noteq> [] \<and> s \<notin> set (scopes info) \<and> ''*'' \<notin> set (scopes info) \<longrightarrow>
      validate_key hash_key st api_key scope now =
        (Inr (False, Some (''API key does not have permission for '' @ s)), st))
   \<and> (api_key = Some k \<and> k \<noteq> [] \<and> api_keys st (hash_key k) = Some info
        \<and> \<not> now > expires_at info
        \<and> (scope = None \<or> scope = Some []
             \<or> (scope = Some s \<and> (s \<in> set (scopes info) \<or> ''*'' \<in> set (scopes info)))) \<longrightarrow>
      validate_key hash_key st api_key scope now = (Inr (True, None), st))
   \<and> snd (validate_key hash_key st api_key scope now) = st"
proof -
  have unchanged: "snd (validate_key hash_key st api_key scope now) = st"
  proof (cases api_key)
    case None
    then show ?thesis by (simp add: validate_key_absent)
  next
    case (Some k')
    show ?thesis
    proof (cases "k' = []")
      case True
      with Some show ?thesis by (simp add: validate_key_absent)
    next
      case False
      show ?thesis
      proof (cases "api_keys st (hash_key k')")
        case None
        with Some False show ?thesis by (simp add: validate_key_unknown)
      next
        case (Some info')
        with \<open>api_key = Some k'\<close> False show ?thesis
          by (simp add: validate_key_found split: option.split)
      qed
    qed
  qed
  show ?thesis
    by (auto simp add: unchanged validate_key_absent validate_key_unknown validate_key_found)
qed

theorem validate_key_cases_witness:
  "validate_key stub_hash ex_mgr3 None (Some ''read'') 120 =
     (Inr (False, Some ''API key is required''), ex_mgr3)
   \<and> validate_key stub_hash ex_mgr3 (Some ''sk-none'') (Some ''read'') 120 =
     (Inr (False, Some ''Invalid API key''), ex_mgr3)
   \<and> validate_key stub_hash ex_mgr3 (Some ''sk-k1'') (Some ''read'') 7776111 =
     (Inr (False, Some ''API key has expired''), ex_mgr3)
   \<and> validate_key stub_hash ex_mgr3 (Some ''sk-k1'') (Some ''write'') 120 =
     (Inr (False, Some ''API key does not have permission for write''), ex_mgr3)
   \<and> validate_key stub_hash ex_mgr3 (Some ''sk-k1'') (Some ''read'') 120 =
     (Inr (True, None), ex_mgr3)"
proof -
  let ?info = "\<lparr>scopes = [''read''], rate_limit = 3, created_at = 110, expires_at = 7776110,
           metadata = 1\<rparr>"
  have none: "api_keys ex_mgr3 (stub_hash ''sk-none'') = None"
    by (simp add: ex_mgr3_def generate_key_def new_dict_def int_to_float_overflows_def Let_def stub_hash_def ex_mgr0_keys)
  have 1: "validate_key stub_hash ex_mgr3 None (Some ''read'') 120 =
     (Inr (False, Some ''API key is required''), ex_mgr3)"
    using validate_key_cases [of None] by simp
  have 2: "validate_key stub_hash ex_mgr3 (Some ''sk-none'') (Some ''read'') 120 =
     (Inr (False, Some ''Invalid API key''), ex_mgr3)"
    using validate_key_cases [of "Some ''sk-none''" stub_hash ex_mgr3 "Some ''read''" 120 "''sk-none''"]
      none by simp
  have 3: "validate_key stub_hash ex_mgr3 (Some ''sk-k1'') (Some ''read'') 7776111 =
     (Inr (False, Some ''API key has expired''), ex_mgr3)"
    using validate_key_cases [of "Some ''sk-k1''" stub_hash ex_mgr3 "Some ''read''" 7776111
        "''sk-k1''" ?info] ex_mgr3_key by simp
  have 4: "validate_key stub_hash ex_mgr3 (Some ''sk-k1'') (Some ''write'') 120 =
     (Inr (False, Some ''API key does not have permission for write''), ex_mgr3)"
    using validate_key_cases [of "Some ''sk-k1''" stub_hash ex_mgr3 "Some ''write''" 120
        "''sk-k1''" ?info "''write''"] ex_mgr3_key by simp
  have 5: "validate_key stub_hash ex_mgr3 (Some ''sk-k1'') (Some ''read'') 120 =
     (Inr (True, None), ex_mgr3)"
    using validate_key_cases [of "Some ''sk-k1''" stub_hash ex_mgr3 "Some ''read''" 120
        "''sk-k1''" ?info "''read''"] ex_mgr3_key by simp
  from 1 2 3 4 5 show ?thesis by simp
qed

theorem validate_key_cases_counterexample:
  "api_keys ex_mgr3 (stub_hash ''sk-k1'') \<noteq> None
   \<and> \<not> 120 > expires_at (the (api_keys ex_mgr3 (stub_hash ''sk-k1'')))
   \<and> [] \<notin> set (scopes (the (api_keys ex_mgr3 (stub_hash ''sk-k1''))))
   \<and> ''*'' \<notin> set (scopes (the (api_keys ex_mgr3 (stub_hash ''sk-k1''))))
   \<and> validate_key stub_hash ex_mgr3 (Some ''sk-k1'') (Some []) 120 = (Inr (True, None), ex_mgr3)"
  by (simp add: validate_key_found [of "''sk-k1''" ex_mgr3 stub_hash, OF _ ex_mgr3_key] ex_mgr3_key)

subsection \<open>No exception for the expected failures\<close>

text \<open>
  On an encoded credential, \<^verbatim>\<open>validate_key\<close> returns a pair on every input and
  \<^verbatim>\<open>check_rate_limit\<close> does whenever a record is stored for the hash.
\<close>

lemma checks_return:
  "(\<exists>ok reason. validate_key hash_key st api_key scope now = (Inr (ok, reason), st)
        \<and> (ok \<longleftrightarrow> reason = None))
   \<and> (api_keys st (hash_key k) \<noteq> None \<longrightarrow>
        (\<exists>ok reason st'. check_rate_limit hash_key st k t_init now' = (Inr (ok, reason), st')
           \<and> (ok \<longleftrightarrow> reason = None)))"
proof (intro conjI impI)
  show "\<exists>ok reason. validate_key hash_key st api_key scope now = (Inr (ok, reason), st)
        \<and> (ok \<longleftrightarrow> reason = None)"
  proof (cases api_key)
    case None
    then show ?thesis by (auto simp add: validate_key_absent)
  next
    case (Some k')
    show ?thesis
    proof (cases "k' = []")
      case True
      with Some show ?thesis by (auto simp add: validate_key_absent)
    next
      case False
      show ?thesis
      proof (cases "api_keys st (hash_key k')")
        case None
        with Some False show ?thesis by (auto simp add: validate_key_unknown)
      next
        case (Some info')
        with \<open>api_key = Some k'\<close> False show ?thesis
          by (auto simp add: validate_key_found split: option.split)
      qed
    qed
  qed
next
  assume "api_keys st (hash_key k) \<noteq> None"
  then obtain info where "api_keys st (hash_key k) = Some info" by blast
  then show "\<exists>ok reason st'. check_rate_limit hash_key st k t_init now' = (Inr (ok, reason), st')
           \<and> (ok \<longleftrightarrow> reason = None)"
    by (auto simp add: check_rate_limit_found Let_def)
qed

lemma ex_str_k1_eval:
  "\<not> list_ex surrogate ex_str_k1" "ex_str_k1 \<noteq> []"
  "str_encode ex_str_k1 = Inr ''sk-k1''"
proof -
  show "\<not> list_ex surrogate ex_str_k1" "ex_str_k1 \<noteq> []"
    by (simp_all add: ex_str_k1_def surrogate_def)
  have "concat (map utf8 ex_str_k1) = ''sk-k1''"
    by code_simp
  then show "str_encode ex_str_k1 = Inr ''sk-k1''"
    by (simp add: str_encode_def \<open>\<not> list_ex surrogate ex_str_k1\<close>)
qed

lemma ex_str_surrogate_eval:
  "list_ex surrogate ex_str_surrogate" "ex_str_surrogate \<noteq> []"
  by (simp_all add: ex_str_surrogate_def surrogate_def)

text \<open>
  C8, amended. On \<^verbatim>\<open>None\<close>, on the empty string and on every \<^verbatim>\<open>str\<close> without a
  surrogate code point, \<^verbatim>\<open>validate_key\<close> returns a pair of a success flag and an
  optional reason, the manager unchanged, and so does \<^verbatim>\<open>check_rate_limit\<close> on such
  a \<^verbatim>\<open>str\<close> whenever a record is stored for the hash of its encoding; neither
  raises, and the reason is \<^verbatim>\<open>None\<close> exactly on success. On a non-empty \<^verbatim>\<open>str\<close> that
  holds a surrogate code point both raise \<^verbatim>\<open>UnicodeEncodeError\<close>, from
  \<^verbatim>\<open>_hash_key\<close>, and leave the manager as it was.

  The claim as written has no input on which \<^verbatim>\<open>validate_key\<close> raises.
\<close>

theorem manager_checks_never_raise:
  "((api_key = None \<or> api_key = Some [] \<or> (\<exists>s. api_key = Some s \<and> \<not> list_ex surrogate s)) \<longrightarrow>
      (\<exists>ok reason. validate_key_call hash_key st api_key scope now = (Inr (ok, reason), st)
         \<and> (ok \<longleftrightarrow> reason = None)))
   \<and> (\<not> list_ex surrogate s \<and> api_keys st (hash_key (concat (map utf8 s))) \<noteq> None \<longrightarrow>
        (\<exists>ok reason st'. check_rate_limit_call hash_key st s t_init now' = (Inr (ok, reason), st')
           \<and> (ok \<longleftrightarrow> reason = None)))
   \<and> (s \<noteq> [] \<and> list_ex surrogate s \<longrightarrow>
        validate_key_call hash_key st (Some s) scope now = (Inl UnicodeEncodeError, st)
        \<and> check_rate_limit_call hash_key st s t_init now' = (Inl UnicodeEncodeError, st))"
proof (intro conjI impI)
  assume "api_key = None \<or> api_key = Some [] \<or> (\<exists>s. api_key = Some s \<and> \<not> list_ex surrogate s)"
  then consider (absent) "api_key = None \<or> api_key = Some []"
    | (encodable) s' where "api_key = Some s'" "s' \<noteq> []" "\<not> list_ex surrogate s'"
    by blast
  then show "\<exists>ok reason. validate_key_call hash_key st api_key scope now = (Inr (ok, reason), st)
         \<and> (ok \<longleftrightarrow> reason = None)"
  proof cases
    case absent
    then show ?thesis by (auto simp add: validate_key_call_def)
  next
    case encodable
    then have "validate_key_call hash_key st api_key scope now =
        validate_key hash_key st (Some (concat (map utf8 s'))) scope now"
      by (simp add: validate_key_call_def str_encode_def)
    with checks_return [of hash_key st "Some (concat (map utf8 s'))" scope now]
    show ?thesis by simp
  qed
next
  assume "\<not> list_ex surrogate s \<and> api_keys st (hash_key (concat (map utf8 s))) \<noteq> None"
  then have enc: "check_rate_limit_call hash_key st s t_init now' =
        check_rate_limit hash_key st (concat (map utf8 s)) t_init now'"
    and stored: "api_keys st (hash_key (concat (map utf8 s))) \<noteq> None"
    by (simp_all add: check_rate_limit_call_def str_encode_def)
  from checks_return [of hash_key st None None 0 "concat (map utf8 s)" t_init now'] stored
  show "\<exists>ok reason st'. check_rate_limit_call hash_key st s t_init now' = (Inr (ok, reason), st')
           \<and> (ok \<longleftrightarrow> reason = None)"
    unfolding enc by blast
next
  assume "s \<noteq> [] \<and> list_ex surrogate s"
  then show "validate_key_call hash_key st (Some s) scope now = (Inl UnicodeEncodeError, st)"
    by (simp add: validate_key_call_def str_encode_def)
next
  assume "s \<noteq> [] \<and> list_ex surrogate s"
  then show "check_rate_limit_call hash_key st s t_init now' = (Inl UnicodeEncodeError, st)"
    by (simp add: check_rate_limit_call_def str_encode_def)
qed

theorem manager_checks_never_raise_witness:
  "\<not> list_ex surrogate ex_str_k1
   \<and> api_keys ex_mgr3 (stub_hash (concat (map utf8 ex_str_k1))) \<noteq> None
   \<and> (\<exists>ok reason. validate_key_call stub_hash ex_mgr3 (Some ex_str_k1) (Some ''write'') 120 =
         (Inr (ok, reason), ex_mgr3) \<and> (ok \<longleftrightarrow> reason = None))
   \<and> (\<exists>ok reason st'. check_rate_limit_call stub_hash ex_mgr3 ex_str_k1 200 200 =
         (Inr (ok, reason), st') \<and> (ok \<longleftrightarrow> reason = None))
   \<and> check_rate_limit_call stub_hash ex_mgr3 ex_str_surrogate 200 200 =
       (Inl UnicodeEncodeError, ex_mgr3)"
proof -
  have bytes: "concat (map utf8 ex_str_k1) = ''sk-k1''"
    using ex_str_k1_eval(3) by (simp add: str_encode_def ex_str_k1_eval(1))
  have stored: "api_keys ex_mgr3 (stub_hash (concat (map utf8 ex_str_k1))) \<noteq> None"
    by (simp add: bytes ex_mgr3_key)
  note t = manager_checks_never_raise
    [of "Some ex_str_k1" stub_hash ex_mgr3 "Some ''write''" 120 ex_str_k1 200 200]
  note u = manager_checks_never_raise
    [of None stub_hash ex_mgr3 None 120 ex_str_surrogate 200 200]
  have 1: "\<exists>ok reason. validate_key_call stub_hash ex_mgr3 (Some ex_str_k1) (Some ''write'') 120 =
         (Inr (ok, reason), ex_mgr3) \<and> (ok \<longleftrightarrow> reason = None)"
    using t [THEN conjunct1] ex_str_k1_eval(1) by blast
  have 2: "\<exists>ok reason st'. check_rate_limit_call stub_hash ex_mgr3 ex_str_k1 200 200 =
         (Inr (ok, reason), st') \<and> (ok \<longleftrightarrow> reason = None)"
    using t [THEN conjunct2, THEN conjunct1] ex_str_k1_eval(1) stored by blast
  have 3: "check_rate_limit_call stub_hash ex_mgr3 ex_str_surrogate 200 200 =
       (Inl UnicodeEncodeError, ex_mgr3)"
    using u [THEN conjunct2, THEN conjunct2] ex_str_surrogate_eval by blast
  from ex_str_k1_eval(1) stored 1 2 3 show ?thesis by blast
qed

theorem manager_checks_never_raise_counterexample:
  "ex_str_surrogate = [56448]
   \<and> validate_key_call stub_hash ex_mgr3 (Some ex_str_surrogate) None 120 =
       (Inl UnicodeEncodeError, ex_mgr3)"
  using ex_str_surrogate_eval
  by (simp add: validate_key_call_def str_encode_def) (simp add: ex_str_surrogate_def)

subsection \<open>Revocation\<close>

lemma revoke_key_found:
  assumes "api_keys st (hash_key k) \<noteq> None"
  shows "revoke_key hash_key st k =
    (True, st\<lparr>api_keys := (api_keys st)(hash_key k := None),
              request_tracker := (request_tracker st)(hash_key k := None)\<rparr>)"
proof (cases "request_tracker st (hash_key k)")
  case None
  then have "(request_tracker st)(hash_key k := None) = request_tracker st"
    by (metis fun_upd_triv)
  with assms None show ?thesis by (simp add: revoke_key_def Let_def)
next
  case (Some tr)
  with assms show ?thesis by (simp add: revoke_key_def Let_def)
qed

lemma revoke_key_missing:
  "api_keys st (hash_key k) = None \<Longrightarrow> revoke_key hash_key st k = (False, st)"
  by (simp add: revoke_key_def)

lemma revoke_key_removes:
  "api_keys (snd (revoke_key hash_key st k)) (hash_key k) = None"
  by (cases "api_keys st (hash_key k)") (simp_all add: revoke_key_found revoke_key_missing)

lemma ex_mgr_empty_key:
  "api_keys ex_mgr_empty (stub_hash []) \<noteq> None"
  by (simp add: ex_mgr_empty_def manager_init_def load_default_api_key_def new_dict_def stub_hash_def Let_def)

text \<open>
  C6, amended. \<^verbatim>\<open>revoke_key\<close> returns \<^verbatim>\<open>True\<close> exactly when a record was stored
  for the hash of the credential; it then removes the record and the tracker of that
  hash and nothing else, and otherwise changes nothing. \<^verbatim>\<open>validate_key\<close> right
  after \<^verbatim>\<open>revoke_key\<close> on the same non-empty credential fails with
  \<^verbatim>\<open>"Invalid API key"\<close>, and on the empty credential with
  \<^verbatim>\<open>"API key is required"\<close>; a second \<^verbatim>\<open>revoke_key\<close> returns \<^verbatim>\<open>False\<close> and
  leaves the manager as the first left it.

  The claim as written has the validation fail as unknown for every raw credential:
  for the empty string, which \<^verbatim>\<open>revoke_key\<close> accepts, \<^verbatim>\<open>validate_key\<close> answers
  \<^verbatim>\<open>"API key is required"\<close> before it looks the hash up.
\<close>

theorem revoke_key_correct:
  "(api_keys st (hash_key k) \<noteq> None \<longrightarrow>
      revoke_key hash_key st k =
        (True, st\<lparr>api_keys := (api_keys st)(hash_key k := None),
                  request_tracker := (request_tracker st)(hash_key k := None)\<rparr>))
   \<and> (api_keys st (hash_key k) = None \<longrightarrow> revoke_key hash_key st k = (False, st))
   \<and> (k \<noteq> [] \<longrightarrow>
        validate_key hash_key (snd (revoke_key hash_key st k)) (Some k) scope now =
          (Inr (False, Some ''Invalid API key''), snd (revoke_key hash_key st k)))
   \<and> revoke_key hash_key (snd (revoke_key hash_key st k)) k =
        (False, snd (revoke_key hash_key st k))
   \<and> validate_key hash_key (snd (revoke_key hash_key st [])) (Some []) scope now =
        (Inr (False, Some ''API key is required''), snd (revoke_key hash_key st []))"
  by (simp add: revoke_key_found revoke_key_missing revoke_key_removes validate_key_unknown
      validate_key_absent)

theorem revoke_key_correct_witness:
  "revoke_key stub_hash ex_mgr3 ''sk-k1'' =
     (True, ex_mgr3\<lparr>api_keys := (api_keys ex_mgr3)(stub_hash ''sk-k1'' := None),
                    request_tracker := (request_tracker ex_mgr3)(stub_hash ''sk-k1'' := None)\<rparr>)
   \<and> revoke_key stub_hash ex_mgr3 ''sk-none'' = (False, ex_mgr3)
   \<and> fst (validate_key stub_hash (snd (revoke_key stub_hash ex_mgr3 ''sk-k1''))
            (Some ''sk-k1'') None 120) = Inr (False, Some ''Invalid API key'')
   \<and> fst (revoke_key stub_hash (snd (revoke_key stub_hash ex_mgr3 ''sk-k1'')) ''sk-k1'') = False"
proof -
  have none: "api_keys ex_mgr3 (stub_hash ''sk-none'') = None"
    by (simp add: ex_mgr3_def generate_key_def new_dict_def int_to_float_overflows_def Let_def stub_hash_def ex_mgr0_keys)
  note r = revoke_key_correct [of ex_mgr3 stub_hash "''sk-k1''" None 120]
  have f: "api_keys ex_mgr3 (stub_hash ''sk-k1'') \<noteq> None"
    by (simp add: ex_mgr3_key)
  have 1: "revoke_key stub_hash ex_mgr3 ''sk-k1'' =
     (True, ex_mgr3\<lparr>api_keys := (api_keys ex_mgr3)(stub_hash ''sk-k1'' := None),
                    request_tracker := (request_tracker ex_mgr3)(stub_hash ''sk-k1'' := None)\<rparr>)"
    using r [THEN conjunct1] f by (rule mp)
  have "validate_key stub_hash (snd (revoke_key stub_hash ex_mgr3 ''sk-k1''))
            (Some ''sk-k1'') None 120 =
          (Inr (False, Some ''Invalid API key''), snd (revoke_key stub_hash ex_mgr3 ''sk-k1''))"
    by (rule r [THEN conjunct2, THEN conjunct2, THEN conjunct1, THEN mp]) simp
  then have 3: "fst (validate_key stub_hash (snd (revoke_key stub_hash ex_mgr3 ''sk-k1''))
            (Some ''sk-k1'') None 120) = Inr (False, Some ''Invalid API key'')"
    by simp
  have 4: "fst (revoke_key stub_hash (snd (revoke_key stub_hash ex_mgr3 ''sk-k1'')) ''sk-k1'') = False"
    by (simp add: r [THEN conjunct2, THEN conjunct2, THEN conjunct2, THEN conjunct1])
  have 2: "revoke_key stub_hash ex_mgr3 ''sk-none'' = (False, ex_mgr3)"
    using revoke_key_correct [of ex_mgr3 stub_hash "''sk-none''" None 120] none by simp
  from 1 2 3 4 show ?thesis by simp
qed

theorem revoke_key_correct_counterexample:
  "fst (revoke_key stub_hash ex_mgr_empty []) = True
   \<and> fst (validate_key stub_hash (snd (revoke_key stub_hash ex_mgr_empty [])) (Some []) None 120) =
       Inr (False, Some ''API key is required'')
   \<and> fst (validate_key stub_hash (snd (revoke_key stub_hash ex_mgr_empty [])) (Some []) None 120) \<noteq>
       Inr (False, Some ''Invalid API key'')"
  by (simp add: revoke_key_found [of ex_mgr_empty stub_hash "[]", OF ex_mgr_empty_key] validate_key_absent)

subsection \<open>Updating a record\<close>

text \<open>
  Without an overflow, the call stores the record with the given fields replaced and
  merges the given metadata into the dictionary object of the record.
\<close>

lemma update_key_found:
  assumes "api_keys st (hash_key k) = Some info"
    and "\<forall>d. days = Some d \<longrightarrow> \<not> int_to_float_overflows (d * 24 * 3600)"
  shows "update_key hash_key st k sc rl days md now =
    (Inr True,
     st\<lparr>api_keys := (api_keys st)(hash_key k \<mapsto>
          \<lparr>scopes = (case sc of None \<Rightarrow> scopes info | Some s \<Rightarrow> s),
           rate_limit = (case rl of None \<Rightarrow> rate_limit info | Some r \<Rightarrow> r),
           created_at = created_at info,
           expires_at = (case days of None \<Rightarrow> expires_at info
                         | Some d \<Rightarrow> now + (real_of_int d * 24 * 3600)),
           metadata = metadata info\<rparr>),
        dict_objects := (case md of None \<Rightarrow> dict_objects st
                         | Some m \<Rightarrow> (dict_objects st)(metadata info :=
                                      dict_objects st (metadata info) ++ m))\<rparr>)"
  using assms
  by (cases info)
     (simp add: update_key_def subscript_def Let_def split: option.split
        del: mult_numeral_left_semiring_numeral)

text \<open>With an overflow, the call raises after \<open>scopes\<close> and \<open>rate_limit\<close> were stored.\<close>

lemma update_key_overflow:
  assumes "api_keys st (hash_key k) = Some info"
    and "int_to_float_overflows (d * 24 * 3600)"
  shows "update_key hash_key st k sc rl (Some d) md now =
    (Inl OverflowError,
     st\<lparr>api_keys := (api_keys st)(hash_key k \<mapsto>
          \<lparr>scopes = (case sc of None \<Rightarrow> scopes info | Some s \<Rightarrow> s),
           rate_limit = (case rl of None \<Rightarrow> rate_limit info | Some r \<Rightarrow> r),
           created_at = created_at info,
           expires_at = expires_at info,
           metadata = metadata info\<rparr>)\<rparr>)"
  using assms
  by (cases info)
     (simp add: update_key_def subscript_def Let_def split: option.split
        del: mult_numeral_left_semiring_numeral)

lemma update_key_missing:
  "api_keys st (hash_key k) = None \<Longrightarrow>
   update_key hash_key st k sc rl days md now = (Inr False, st)"
  by (simp add: update_key_def)

lemma ex_mgr_shared_eval:
  "api_keys ex_mgr_shared (stub_hash ''sk-ka'') =
     Some \<lparr>scopes = [''*''], rate_limit = 1000, created_at = 110, expires_at = 7776110,
           metadata = 1\<rparr>"
  "api_keys ex_mgr_shared (stub_hash ''sk-kb'') =
     Some \<lparr>scopes = [''*''], rate_limit = 1000, created_at = 120, expires_at = 7776120,
           metadata = 1\<rparr>"
  "dict_objects ex_mgr_shared 1 = [''team'' \<mapsto> PyStr ''ops'']"
  by (simp_all add: ex_mgr_shared_def generate_key_def new_dict_def int_to_float_overflows_def
      stub_hash_def Let_def ex_mgr0_rest ex_mgr0_next)

lemma ex_mgr_shared_object:
  "dict_objects ex_mgr_shared (Suc 0) = [''team'' \<mapsto> PyStr ''ops'']"
  using ex_mgr_shared_eval(3) by simp

lemma no_days:
  "\<forall>d. (None :: int option) = Some d \<longrightarrow> \<not> int_to_float_overflows (d * 24 * 3600)"
  by simp

lemma days_overflow: "int_to_float_overflows (10 ^ 400 * 24 * 3600)"
  by (simp add: int_to_float_overflows_def)

text \<open>
  C7, amended. \<^verbatim>\<open>update_key\<close> returns \<^verbatim>\<open>False\<close> and changes nothing when no record is
  stored for the hash. Otherwise, when \<^verbatim>\<open>expires_in_days\<close> is \<^verbatim>\<open>None\<close> or its number
  of seconds converts to a float (it is below \<open>2 ^ 1024 - 2 ^ 970\<close> in absolute
  value), it returns \<^verbatim>\<open>True\<close> and stores a record in which \<open>created_at\<close> and the
  metadata dictionary object are as before, each of \<open>scopes\<close> and \<open>rate_limit\<close> is the
  argument when one is given and as before when it is \<^verbatim>\<open>None\<close>, and \<open>expires_at\<close> is
  \<open>now\<close> plus the given number of days (of 86400 seconds) and as before for
  \<^verbatim>\<open>None\<close>. A given metadata argument is merged into that dictionary object in
  place: each key goes to the value in the argument when the argument has the key and
  to the old value otherwise, which every record sharing the object shows too; no
  other dictionary object, no other record, no tracker and no setting changes.
  Updating with \<^verbatim>\<open>{"a": 1}\<close> and then with \<^verbatim>\<open>{"b": 2}\<close> leaves both keys in the
  metadata, beside the keys it had.

  The claim as written has every call on a stored record return \<^verbatim>\<open>True\<close> and change
  only what was passed: with \<^verbatim>\<open>expires_in_days=10**400\<close> the call raises
  \<^verbatim>\<open>OverflowError\<close> after the new \<open>scopes\<close> were stored, and a metadata update of one
  record shows in a second record that was issued with the same dictionary.
\<close>

theorem update_key_correct:
  "(api_keys st (hash_key k) = None \<longrightarrow>
      update_key hash_key st k sc rl days md now = (Inr False, st))
   \<and> (api_keys st (hash_key k) = Some info
        \<and> (\<forall>d. days = Some d \<longrightarrow> \<not> int_to_float_overflows (d * 24 * 3600)) \<longrightarrow>
      (\<exists>info' objects'.
         update_key hash_key st k sc rl days md now =
           (Inr True, st\<lparr>api_keys := (api_keys st)(hash_key k \<mapsto> info'),
                         dict_objects := objects'\<rparr>)
         \<and> created_at info' = created_at info
         \<and> metadata info' = metadata info
         \<and> scopes info' = (case sc of None \<Rightarrow> scopes info | Some s \<Rightarrow> s)
         \<and> rate_limit info' = (case rl of None \<Rightarrow> rate_limit info | Some r \<Rightarrow> r)
         \<and> expires_at info' =
             (case days of None \<Rightarrow> expires_at info | Some d \<Rightarrow> now + real_of_int d * 86400)
         \<and> (\<forall>a x. objects' a x =
               (if a = metadata info
                then (case md of
                        None \<Rightarrow> dict_objects st a x
                      | Some m \<Rightarrow> (case m x of None \<Rightarrow> dict_objects st a x | Some v \<Rightarrow> Some v))
                else dict_objects st a x))))
   \<and> (api_keys st (hash_key k) = Some info \<longrightarrow>
      (let st1 = snd (update_key hash_key st k None None None (Some [''a'' \<mapsto> PyInt 1]) now);
           st2 = snd (update_key hash_key st1 k None None None (Some [''b'' \<mapsto> PyInt 2]) now')
       in api_keys st2 (hash_key k) = Some info
          \<and> dict_objects st2 (metadata info) ''a'' = Some (PyInt 1)
          \<and> dict_objects st2 (metadata info) ''b'' = Some (PyInt 2)
          \<and> (\<forall>x. x \<noteq> ''a'' \<and> x \<noteq> ''b'' \<longrightarrow>
                dict_objects st2 (metadata info) x = dict_objects st (metadata info) x)))"
proof (intro conjI impI)
  assume "api_keys st (hash_key k) = None"
  then show "update_key hash_key st k sc rl days md now = (Inr False, st)"
    by (rule update_key_missing)
next
  assume "api_keys st (hash_key k) = Some info
        \<and> (\<forall>d. days = Some d \<longrightarrow> \<not> int_to_float_overflows (d * 24 * 3600))"
  then have found: "api_keys st (hash_key k) = Some info"
    and fits: "\<forall>d. days = Some d \<longrightarrow> \<not> int_to_float_overflows (d * 24 * 3600)"
    by simp_all
  show "\<exists>info' objects'.
         update_key hash_key st k sc rl days md now =
           (Inr True, st\<lparr>api_keys := (api_keys st)(hash_key k \<mapsto> info'),
                         dict_objects := objects'\<rparr>)
         \<and> created_at info' = created_at info
         \<and> metadata info' = metadata info
         \<and> scopes info' = (case sc of None \<Rightarrow> scopes info | Some s \<Rightarrow> s)
         \<and> rate_limit info' = (case rl of None \<Rightarrow> rate_limit info | Some r \<Rightarrow> r)
         \<and> expires_at info' =
             (case days of None \<Rightarrow> expires_at info | Some d \<Rightarrow> now + real_of_int d * 86400)
         \<and> (\<forall>a x. objects' a x =
               (if a = metadata info
                then (case md of
                        None \<Rightarrow> dict_objects st a x
                      | Some m \<Rightarrow> (case m x of None \<Rightarrow> dict_objects st a x | Some v \<Rightarrow> Some v))
                else dict_objects st a x))"
    unfolding update_key_found [of st hash_key k, OF found fits]
    by (rule exI, rule exI, intro conjI, rule refl)
       (simp_all add: map_add_def split: option.split)
next
  assume found: "api_keys st (hash_key k) = Some info"
  let ?st1 = "snd (update_key hash_key st k None None None (Some [''a'' \<mapsto> PyInt 1]) now)"
  have st1: "?st1 = st\<lparr>dict_objects := (dict_objects st)(metadata info :=
                       dict_objects st (metadata info) ++ [''a'' \<mapsto> PyInt 1])\<rparr>"
    using found
    by (cases info) (simp add: update_key_found [of st hash_key k, OF found] map_upd_triv)
  then have found1: "api_keys ?st1 (hash_key k) = Some info"
    using found by simp
  have st2: "snd (update_key hash_key ?st1 k None None None (Some [''b'' \<mapsto> PyInt 2]) now') =
      ?st1\<lparr>dict_objects := (dict_objects ?st1)(metadata info :=
                       dict_objects ?st1 (metadata info) ++ [''b'' \<mapsto> PyInt 2])\<rparr>"
    using found1
    by (cases info) (simp add: update_key_found [of ?st1 hash_key k, OF found1] map_upd_triv)
  show "let st1 = snd (update_key hash_key st k None None None (Some [''a'' \<mapsto> PyInt 1]) now);
           st2 = snd (update_key hash_key st1 k None None None (Some [''b'' \<mapsto> PyInt 2]) now')
       in api_keys st2 (hash_key k) = Some info
          \<and> dict_objects st2 (metadata info) ''a'' = Some (PyInt 1)
          \<and> dict_objects st2 (metadata info) ''b'' = Some (PyInt 2)
          \<and> (\<forall>x. x \<noteq> ''a'' \<and> x \<noteq> ''b'' \<longrightarrow>
                dict_objects st2 (metadata info) x = dict_objects st (metadata info) x)"
    unfolding Let_def st2
    by (simp add: st1 found)
qed

theorem update_key_correct_witness:
  "update_key stub_hash ex_mgr3 ''sk-none'' None (Some 5) (Some 1) None 120 = (Inr False, ex_mgr3)
   \<and> fst (update_key stub_hash ex_mgr3 ''sk-k1'' None (Some 5) (Some 1) None 120) = Inr True
   \<and> map_option (\<lambda>i. (scopes i, rate_limit i, created_at i, expires_at i, metadata i))
        (api_keys (snd (update_key stub_hash ex_mgr3 ''sk-k1'' None (Some 5) (Some 1) None 120))
           (stub_hash ''sk-k1'')) = Some ([''read''], 5, 110, 86520, 1)
   \<and> (let st1 = snd (update_key stub_hash ex_mgr3 ''sk-k1'' None None None
                       (Some [''a'' \<mapsto> PyInt 1]) 120);
           st2 = snd (update_key stub_hash st1 ''sk-k1'' None None None
                       (Some [''b'' \<mapsto> PyInt 2]) 130)
       in dict_objects st2 1 ''a'' = Some (PyInt 1) \<and> dict_objects st2 1 ''b'' = Some (PyInt 2))"
proof -
  let ?info = "\<lparr>scopes = [''read''], rate_limit = 3, created_at = 110, expires_at = 7776110,
           metadata = 1\<rparr>"
  have none: "api_keys ex_mgr3 (stub_hash ''sk-none'') = None"
    by (simp add: ex_mgr3_def generate_key_def new_dict_def int_to_float_overflows_def Let_def
        stub_hash_def ex_mgr0_keys)
  have fits: "\<forall>d. Some (1::int) = Some d \<longrightarrow> \<not> int_to_float_overflows (d * 24 * 3600)"
    by (simp add: int_to_float_overflows_def)
  have 1: "update_key stub_hash ex_mgr3 ''sk-none'' None (Some 5) (Some 1) None 120 =
             (Inr False, ex_mgr3)"
    using update_key_correct [of ex_mgr3 stub_hash "''sk-none''" None "Some 5" "Some 1" None 120,
        THEN conjunct1] none by (rule mp)
  note u = update_key_correct
    [of ex_mgr3 stub_hash "''sk-k1''" None "Some 5" "Some 1" None 120 ?info 130]
  from u [THEN conjunct2, THEN conjunct1, THEN mp, OF conjI, OF ex_mgr3_key fits]
  obtain info' objects' where
    upd: "update_key stub_hash ex_mgr3 ''sk-k1'' None (Some 5) (Some 1) None 120 =
            (Inr True, ex_mgr3\<lparr>api_keys := (api_keys ex_mgr3)(stub_hash ''sk-k1'' \<mapsto> info'),
                               dict_objects := objects'\<rparr>)"
    and fields: "created_at info' = 110" "scopes info' = [''read'']" "rate_limit info' = 5"
      "expires_at info' = 86520" "metadata info' = 1"
    by auto
  have 2: "fst (update_key stub_hash ex_mgr3 ''sk-k1'' None (Some 5) (Some 1) None 120) = Inr True"
    and 3: "map_option (\<lambda>i. (scopes i, rate_limit i, created_at i, expires_at i, metadata i))
        (api_keys (snd (update_key stub_hash ex_mgr3 ''sk-k1'' None (Some 5) (Some 1) None 120))
           (stub_hash ''sk-k1'')) = Some ([''read''], 5, 110, 86520, 1)"
    by (simp_all add: upd fields)
  have 4: "let st1 = snd (update_key stub_hash ex_mgr3 ''sk-k1'' None None None
                       (Some [''a'' \<mapsto> PyInt 1]) 120);
           st2 = snd (update_key stub_hash st1 ''sk-k1'' None None None
                       (Some [''b'' \<mapsto> PyInt 2]) 130)
       in dict_objects st2 1 ''a'' = Some (PyInt 1) \<and> dict_objects st2 1 ''b'' = Some (PyInt 2)"
    using u [THEN conjunct2, THEN conjunct2, THEN mp, OF ex_mgr3_key]
    by (simp add: Let_def)
  from 1 2 3 4 show ?thesis by simp
qed

theorem update_key_correct_counterexample:
  "api_keys ex_mgr3 (stub_hash ''sk-k1'') \<noteq> None
   \<and> fst (update_key stub_hash ex_mgr3 ''sk-k1'' (Some [''admin'']) None (Some (10 ^ 400)) None 120) =
       Inl OverflowError
   \<and> map_option scopes
        (api_keys (snd (update_key stub_hash ex_mgr3 ''sk-k1'' (Some [''admin'']) None
                          (Some (10 ^ 400)) None 120)) (stub_hash ''sk-k1'')) = Some [''admin'']
   \<and> map_option metadata (api_keys ex_mgr_shared (stub_hash ''sk-kb'')) = Some 1
   \<and> dict_objects ex_mgr_shared 1 ''a'' = None
   \<and> fst (update_key stub_hash ex_mgr_shared ''sk-ka'' None None None
             (Some [''a'' \<mapsto> PyInt 1]) 130) = Inr True
   \<and> dict_objects (snd (update_key stub_hash ex_mgr_shared ''sk-ka'' None None None
                           (Some [''a'' \<mapsto> PyInt 1]) 130)) 1 ''a'' = Some (PyInt 1)
   \<and> map_option metadata
        (api_keys (snd (update_key stub_hash ex_mgr_shared ''sk-ka'' None None None
                          (Some [''a'' \<mapsto> PyInt 1]) 130)) (stub_hash ''sk-kb'')) = Some 1"
proof -
  have over: "update_key stub_hash ex_mgr3 ''sk-k1'' (Some [''admin'']) None (Some (10 ^ 400)) None 120 =
      (Inl OverflowError,
       ex_mgr3\<lparr>api_keys := (api_keys ex_mgr3)(stub_hash ''sk-k1'' \<mapsto>
          \<lparr>scopes = [''admin''], rate_limit = 3, created_at = 110, expires_at = 7776110,
           metadata = 1\<rparr>)\<rparr>)"
    unfolding update_key_overflow [of ex_mgr3 stub_hash "''sk-k1''" _ "10 ^ 400",
        OF ex_mgr3_key days_overflow]
    by simp
  have shared: "update_key stub_hash ex_mgr_shared ''sk-ka'' None None None
             (Some [''a'' \<mapsto> PyInt 1]) 130 =
      (Inr True,
       ex_mgr_shared\<lparr>dict_objects := (dict_objects ex_mgr_shared)(1 :=
          [''team'' \<mapsto> PyStr ''ops'', ''a'' \<mapsto> PyInt 1])\<rparr>)"
    unfolding update_key_found [of ex_mgr_shared stub_hash "''sk-ka''",
        OF ex_mgr_shared_eval(1) no_days]
    using ex_mgr_shared_eval(1)
    by (simp add: ex_mgr_shared_object map_upd_triv)
  have 1: "api_keys ex_mgr3 (stub_hash ''sk-k1'') \<noteq> None"
    by (simp add: ex_mgr3_key)
  have 2: "map_option metadata (api_keys ex_mgr_shared (stub_hash ''sk-kb'')) = Some 1"
    by (simp add: ex_mgr_shared_eval(2))
  have 3: "dict_objects ex_mgr_shared 1 ''a'' = None"
    by (simp add: ex_mgr_shared_object)
  from 1 2 3 show ?thesis
    unfolding over shared by simp
qed

subsection \<open>The gate\<close>

text \<open>
  What \<^verbatim>\<open>dispatch\<close> can get back from the manager: the validation, called without
  a scope, fails with a reason or succeeds on a non-empty credential with a stored
  record; the rate check on a stored record fails with a reason or succeeds.
\<close>

lemma validate_key_result:
  "(\<exists>reason. validate_key hash_key st api_key None now = (Inr (False, Some reason), st))
   \<or> (validate_key hash_key st api_key None now = (Inr (True, None), st)
       \<and> (\<exists>k info. api_key = Some k \<and> api_keys st (hash_key k) = Some info))"
proof (cases api_key)
  case None
  then show ?thesis by (simp add: validate_key_absent)
next
  case (Some k)
  show ?thesis
  proof (cases "k = []")
    case True
    with Some show ?thesis by (simp add: validate_key_absent)
  next
    case False
    show ?thesis
    proof (cases "api_keys st (hash_key k)")
      case None
      with Some False show ?thesis by (simp add: validate_key_unknown)
    next
      case (Some info)
      with \<open>api_key = Some k\<close> False show ?thesis
        by (simp add: validate_key_found)
    qed
  qed
qed

lemma check_rate_limit_result:
  assumes "api_keys st (hash_key k) = Some info"
  shows "\<exists>st'. (\<exists>reason. check_rate_limit hash_key st k t_init now = (Inr (False, Some reason), st'))
           \<or> check_rate_limit hash_key st k t_init now = (Inr (True, None), st')"
  by (simp add: check_rate_limit_found [of st hash_key k, OF assms] Let_def)

lemma dispatch_excluded:
  "excluded self req \<Longrightarrow>
   dispatch hash_key self mgr req call_next t_validate t_init t_check =
     (Inr (Downstream (call_next req)), mgr, [CallNext req])"
  by (simp add: dispatch_def)

lemma dispatch_rejected_auth:
  assumes "\<not> excluded self req"
    and "validate_key hash_key mgr (headers req (header_name self)) None t_validate =
           (Inr (False, Some reason), mgr)"
  shows "dispatch hash_key self mgr req call_next t_validate t_init t_check =
     (Inr (JSONResponse 401 [(''success'', JBool False), (''message'', JStr reason)]), mgr,
      [ValidateKey (headers req (header_name self))])"
  using assms by (simp add: dispatch_def Let_def rejection_def json_of_message_def)

lemma dispatch_rejected_rate:
  assumes "\<not> excluded self req"
    and "headers req (header_name self) = Some k"
    and "validate_key hash_key mgr (Some k) None t_validate = (Inr (True, None), mgr)"
    and "check_rate_limit hash_key mgr k t_init t_check = (Inr (False, Some reason), mgr2)"
  shows "dispatch hash_key self mgr req call_next t_validate t_init t_check =
     (Inr (JSONResponse 429 [(''success'', JBool False), (''message'', JStr reason)]), mgr2,
      [ValidateKey (Some k), CheckRateLimit (Some k)])"
  using assms by (simp add: dispatch_def Let_def rejection_def json_of_message_def)

lemma dispatch_forwarded:
  assumes "\<not> excluded self req"
    and "headers req (header_name self) = Some k"
    and "validate_key hash_key mgr (Some k) None t_validate = (Inr (True, None), mgr)"
    and "check_rate_limit hash_key mgr k t_init t_check = (Inr (True, None), mgr2)"
  shows "dispatch hash_key self mgr req call_next t_validate t_init t_check =
     (Inr (Downstream (call_next req)), mgr2,
      [ValidateKey (Some k), CheckRateLimit (Some k), CallNext req])"
  using assms by (simp add: dispatch_def Let_def)

text \<open>
  C4. For a request that no excluded path matches, with \<open>api_key\<close> the value of the
  configured header: the validation either fails with a reason or succeeds. When it
  fails, the gate answers 401 with the two fields \<^verbatim>\<open>success\<close> = false and
  \<^verbatim>\<open>message\<close> = the reason, after the one call of \<^verbatim>\<open>validate_key\<close>, the manager
  unchanged. When it succeeds, the rate check either fails with a reason, and the
  gate answers 429 with the same two fields after the two calls into the manager, or
  succeeds, and the gate calls the handler and returns its response as it is. The
  handler is called in the last case only.
\<close>

theorem dispatch_checks:
  "\<not> excluded self req \<longrightarrow>
   (let api_key = headers req (header_name self);
        v = fst (validate_key hash_key mgr api_key None t_validate)
    in ((\<exists>reason. v = Inr (False, Some reason)) \<or> v = Inr (True, None))
       \<and> (\<forall>reason. v = Inr (False, Some reason) \<longrightarrow>
            dispatch hash_key self mgr req call_next t_validate t_init t_check =
              (Inr (JSONResponse 401 [(''success'', JBool False), (''message'', JStr reason)]),
               mgr, [ValidateKey api_key]))
       \<and> (v = Inr (True, None) \<longrightarrow>
            (\<exists>k c mgr2. api_key = Some k
               \<and> check_rate_limit hash_key mgr k t_init t_check = (c, mgr2)
               \<and> ((\<exists>reason. c = Inr (False, Some reason)) \<or> c = Inr (True, None))
               \<and> (\<forall>reason. c = Inr (False, Some reason) \<longrightarrow>
                    dispatch hash_key self mgr req call_next t_validate t_init t_check =
                      (Inr (JSONResponse 429
                              [(''success'', JBool False), (''message'', JStr reason)]),
                       mgr2, [ValidateKey api_key, CheckRateLimit api_key]))
               \<and> (c = Inr (True, None) \<longrightarrow>
                    dispatch hash_key self mgr req call_next t_validate t_init t_check =
                      (Inr (Downstream (call_next req)), mgr2,
                       [ValidateKey api_key, CheckRateLimit api_key, CallNext req])))))"
proof
  assume gated: "\<not> excluded self req"
  let ?key = "headers req (header_name self)"
  from validate_key_result [of hash_key mgr ?key t_validate]
  consider (fail) reason where
      "validate_key hash_key mgr ?key None t_validate = (Inr (False, Some reason), mgr)"
    | (pass) k info where
      "validate_key hash_key mgr ?key None t_validate = (Inr (True, None), mgr)"
      "?key = Some k" "api_keys mgr (hash_key k) = Some info"
    by blast
  then show "let api_key = ?key;
        v = fst (validate_key hash_key mgr api_key None t_validate)
    in ((\<exists>reason. v = Inr (False, Some reason)) \<or> v = Inr (True, None))
       \<and> (\<forall>reason. v = Inr (False, Some reason) \<longrightarrow>
            dispatch hash_key self mgr req call_next t_validate t_init t_check =
              (Inr (JSONResponse 401 [(''success'', JBool False), (''message'', JStr reason)]),
               mgr, [ValidateKey api_key]))
       \<and> (v = Inr (True, None) \<longrightarrow>
            (\<exists>k c mgr2. api_key = Some k
               \<and> check_rate_limit hash_key mgr k t_init t_check = (c, mgr2)
               \<and> ((\<exists>reason. c = Inr (False, Some reason)) \<or> c = Inr (True, None))
               \<and> (\<forall>reason. c = Inr (False, Some reason) \<longrightarrow>
                    dispatch hash_key self mgr req call_next t_validate t_init t_check =
                      (Inr (JSONResponse 429
                              [(''success'', JBool False), (''message'', JStr reason)]),
                       mgr2, [ValidateKey api_key, CheckRateLimit api_key]))
               \<and> (c = Inr (True, None) \<longrightarrow>
                    dispatch hash_key self mgr req call_next t_validate t_init t_check =
                      (Inr (Downstream (call_next req)), mgr2,
                       [ValidateKey api_key, CheckRateLimit api_key, CallNext req]))))"
  proof cases
    case fail
    with gated show ?thesis
      by (simp add: Let_def dispatch_rejected_auth)
  next
    case pass
    from check_rate_limit_result [of mgr hash_key k info t_init t_check, OF pass(3)]
    obtain mgr2 where
      "(\<exists>reason. check_rate_limit hash_key mgr k t_init t_check = (Inr (False, Some reason), mgr2))
       \<or> check_rate_limit hash_key mgr k t_init t_check = (Inr (True, None), mgr2)"
      by blast
    then show ?thesis
    proof
      assume "\<exists>reason. check_rate_limit hash_key mgr k t_init t_check =
                (Inr (False, Some reason), mgr2)"
      then obtain reason where
        c: "check_rate_limit hash_key mgr k t_init t_check = (Inr (False, Some reason), mgr2)"
        by blast
      from pass(1) have v: "validate_key hash_key mgr (Some k) None t_validate =
          (Inr (True, None), mgr)"
        by (simp add: pass(2))
      show ?thesis
        using dispatch_rejected_rate [OF gated pass(2) v c]
        by (simp add: Let_def pass(2) v c)
    next
      assume c: "check_rate_limit hash_key mgr k t_init t_check = (Inr (True, None), mgr2)"
      from pass(1) have v: "validate_key hash_key mgr (Some k) None t_validate =
          (Inr (True, None), mgr)"
        by (simp add: pass(2))
      show ?thesis
        using dispatch_forwarded [OF gated pass(2) v c]
        by (simp add: Let_def pass(2) v c)
    qed
  qed
qed

text \<open>The excluded paths that the constructor stores.\<close>

lemma middleware_init_paths:
  "exclude_paths (middleware_init None hn) = [''/docs'', ''/redoc'', ''/openapi.json'', ''/health'']"
  "exclude_paths (middleware_init (Some []) hn) =
     [''/docs'', ''/redoc'', ''/openapi.json'', ''/health'']"
  "ps \<noteq> [] \<Longrightarrow> exclude_paths (middleware_init (Some ps) hn) = ps"
  by (simp_all add: middleware_init_def)

lemma ex_gate_paths:
  "exclude_paths ex_gate = [''/docs'', ''/redoc'', ''/openapi.json'', ''/health'']"
  "header_name ex_gate = ''X-API-Key''"
  by (simp_all add: ex_gate_def middleware_init_def)

theorem dispatch_checks_witness:
  "dispatch stub_hash ex_gate ex_mgr3 \<lparr>path = ''/api/jobs'', headers = Map.empty\<rparr>
       ex_handler 120 200 200 =
     (Inr (JSONResponse 401
             [(''success'', JBool False), (''message'', JStr ''API key is required'')]),
      ex_mgr3, [ValidateKey None])
   \<and> dispatch stub_hash ex_gate ex_mgr_zero
       \<lparr>path = ''/api/jobs'', headers = [''X-API-Key'' \<mapsto> ''sk-k0'']\<rparr> ex_handler 250 300 300 =
     (Inr (JSONResponse 429
             [(''success'', JBool False), (''message'', JStr ''API rate limit exceeded'')]),
      ex_mgr_zero, [ValidateKey (Some ''sk-k0''), CheckRateLimit (Some ''sk-k0'')])
   \<and> dispatch stub_hash ex_gate ex_mgr3
       \<lparr>path = ''/api/jobs'', headers = [''X-API-Key'' \<mapsto> ''sk-k1'']\<rparr> ex_handler 120 200 200 =
     (Inr (Downstream ''handled /api/jobs''),
      ex_mgr3\<lparr>request_tracker := (request_tracker ex_mgr3)(stub_hash ''sk-k1'' \<mapsto>
           \<lparr>requests = 1, window_start = 200\<rparr>)\<rparr>,
      [ValidateKey (Some ''sk-k1''), CheckRateLimit (Some ''sk-k1''),
       CallNext \<lparr>path = ''/api/jobs'', headers = [''X-API-Key'' \<mapsto> ''sk-k1'']\<rparr>])"
proof -
  have gated: "\<not> excluded ex_gate \<lparr>path = ''/api/jobs'', headers = hs\<rparr>" for hs
    by (simp add: excluded_def ex_gate_paths)
  have v1: "validate_key stub_hash ex_mgr3 None None 120 =
      (Inr (False, Some ''API key is required''), ex_mgr3)"
    by (simp add: validate_key_absent)
  have v2: "validate_key stub_hash ex_mgr_zero (Some ''sk-k0'') None 250 =
      (Inr (True, None), ex_mgr_zero)"
    by (simp add: validate_key_found [of "''sk-k0''" ex_mgr_zero stub_hash, OF _ ex_mgr_zero_key])
  have c2: "check_rate_limit stub_hash ex_mgr_zero ''sk-k0'' 300 300 =
      (Inr (False, Some ''API rate limit exceeded''), ex_mgr_zero)"
    by (simp add: check_rate_limit_found [of ex_mgr_zero stub_hash "''sk-k0''", OF ex_mgr_zero_key]
        ex_mgr_zero_rest tracker_put_same Let_def)
  have v3: "validate_key stub_hash ex_mgr3 (Some ''sk-k1'') None 120 =
      (Inr (True, None), ex_mgr3)"
    by (simp add: validate_key_found [of "''sk-k1''" ex_mgr3 stub_hash, OF _ ex_mgr3_key])
  have c3: "check_rate_limit stub_hash ex_mgr3 ''sk-k1'' 200 200 =
      (Inr (True, None),
       ex_mgr3\<lparr>request_tracker := (request_tracker ex_mgr3)(stub_hash ''sk-k1'' \<mapsto>
           \<lparr>requests = 1, window_start = 200\<rparr>)\<rparr>)"
    by (simp add: check_rate_limit_found [of ex_mgr3 stub_hash "''sk-k1''", OF ex_mgr3_key]
        ex_mgr3_rest Let_def)
  have 1: "dispatch stub_hash ex_gate ex_mgr3 \<lparr>path = ''/api/jobs'', headers = Map.empty\<rparr>
       ex_handler 120 200 200 =
     (Inr (JSONResponse 401
             [(''success'', JBool False), (''message'', JStr ''API key is required'')]),
      ex_mgr3, [ValidateKey None])"
    using dispatch_checks [of ex_gate "\<lparr>path = ''/api/jobs'', headers = Map.empty\<rparr>"
        stub_hash ex_mgr3 120 ex_handler 200 200] gated
    by (simp add: Let_def v1 ex_gate_paths)
  have 2: "dispatch stub_hash ex_gate ex_mgr_zero
       \<lparr>path = ''/api/jobs'', headers = [''X-API-Key'' \<mapsto> ''sk-k0'']\<rparr> ex_handler 250 300 300 =
     (Inr (JSONResponse 429
             [(''success'', JBool False), (''message'', JStr ''API rate limit exceeded'')]),
      ex_mgr_zero, [ValidateKey (Some ''sk-k0''), CheckRateLimit (Some ''sk-k0'')])"
    using dispatch_checks [of ex_gate
        "\<lparr>path = ''/api/jobs'', headers = [''X-API-Key'' \<mapsto> ''sk-k0'']\<rparr>"
        stub_hash ex_mgr_zero 250 ex_handler 300 300] gated
    by (simp add: Let_def v2 c2 ex_gate_paths)
  have 3: "dispatch stub_hash ex_gate ex_mgr3
       \<lparr>path = ''/api/jobs'', headers = [''X-API-Key'' \<mapsto> ''sk-k1'']\<rparr> ex_handler 120 200 200 =
     (Inr (Downstream ''handled /api/jobs''),
      ex_mgr3\<lparr>request_tracker := (request_tracker ex_mgr3)(stub_hash ''sk-k1'' \<mapsto>
           \<lparr>requests = 1, window_start = 200\<rparr>)\<rparr>,
      [ValidateKey (Some ''sk-k1''), CheckRateLimit (Some ''sk-k1''),
       CallNext \<lparr>path = ''/api/jobs'', headers = [''X-API-Key'' \<mapsto> ''sk-k1'']\<rparr>])"
    using dispatch_checks [of ex_gate
        "\<lparr>path = ''/api/jobs'', headers = [''X-API-Key'' \<mapsto> ''sk-k1'']\<rparr>"
        stub_hash ex_mgr3 120 ex_handler 200 200] gated
    by (simp add: Let_def v3 c3 ex_gate_paths ex_handler_def)
  from 1 2 3 show ?thesis by simp
qed

text \<open>
  C5. When the path of the request starts with one of the gate's excluded paths, the
  gate calls the handler and returns its response, the manager untouched, and that
  call is the only one it makes: none into \<^verbatim>\<open>validate_key\<close> or
  \<^verbatim>\<open>check_rate_limit\<close>, whatever the headers are. When the path starts with none
  of them, the credential checks decide the outcome, on the value of the configured
  header: either \<^verbatim>\<open>validate_key\<close> fails and the gate answers 401 with its reason,
  having called nothing else; or it succeeds, \<^verbatim>\<open>check_rate_limit\<close> is called and
  fails, and the gate answers 429 with that reason; or both succeed and only then the
  handler is called. The manager afterwards is the one the checks left. The gate's
  excluded paths are those its constructor stored, the default four when it was given
  \<^verbatim>\<open>None\<close> or an empty list.
\<close>

theorem dispatch_allow_list:
  "((\<exists>p \<in> set (exclude_paths self). prefix p (path req)) \<longrightarrow>
      dispatch hash_key self mgr req call_next t_validate t_init t_check =
        (Inr (Downstream (call_next req)), mgr, [CallNext req]))
   \<and> (\<not> (\<exists>p \<in> set (exclude_paths self). prefix p (path req)) \<longrightarrow>
      (let key = headers req (header_name self) in
       (\<exists>reason.
          validate_key hash_key mgr key None t_validate = (Inr (False, Some reason), mgr)
          \<and> dispatch hash_key self mgr req call_next t_validate t_init t_check =
              (Inr (JSONResponse 401 [(''success'', JBool False), (''message'', JStr reason)]),
               mgr, [ValidateKey key]))
       \<or> (\<exists>k reason mgr2.
             key = Some k
             \<and> validate_key hash_key mgr key None t_validate = (Inr (True, None), mgr)
             \<and> check_rate_limit hash_key mgr k t_init t_check = (Inr (False, Some reason), mgr2)
             \<and> dispatch hash_key self mgr req call_next t_validate t_init t_check =
                 (Inr (JSONResponse 429
                         [(''success'', JBool False), (''message'', JStr reason)]),
                  mgr2, [ValidateKey key, CheckRateLimit key]))
       \<or> (\<exists>k mgr2.
             key = Some k
             \<and> validate_key hash_key mgr key None t_validate = (Inr (True, None), mgr)
             \<and> check_rate_limit hash_key mgr k t_init t_check = (Inr (True, None), mgr2)
             \<and> dispatch hash_key self mgr req call_next t_validate t_init t_check =
                 (Inr (Downstream (call_next req)), mgr2,
                  [ValidateKey key, CheckRateLimit key, CallNext req]))))"
proof (intro conjI impI)
  assume "\<exists>p \<in> set (exclude_paths self). prefix p (path req)"
  then have "excluded self req"
    by (simp add: excluded_def list_ex_iff)
  then show "dispatch hash_key self mgr req call_next t_validate t_init t_check =
        (Inr (Downstream (call_next req)), mgr, [CallNext req])"
    by (rule dispatch_excluded)
next
  assume "\<not> (\<exists>p \<in> set (exclude_paths self). prefix p (path req))"
  then have gated: "\<not> excluded self req"
    by (simp add: excluded_def list_ex_iff)
  let ?key = "headers req (header_name self)"
  from validate_key_result [of hash_key mgr ?key t_validate]
  consider (fail) reason where
      "validate_key hash_key mgr ?key None t_validate = (Inr (False, Some reason), mgr)"
    | (pass) k info where
      "validate_key hash_key mgr ?key None t_validate = (Inr (True, None), mgr)"
      "?key = Some k" "api_keys mgr (hash_key k) = Some info"
    by blast
  then have "(\<exists>reason.
          validate_key hash_key mgr ?key None t_validate = (Inr (False, Some reason), mgr)
          \<and> dispatch hash_key self mgr req call_next t_validate t_init t_check =
              (Inr (JSONResponse 401 [(''success'', JBool False), (''message'', JStr reason)]),
               mgr, [ValidateKey ?key]))
       \<or> (\<exists>k reason mgr2.
             ?key = Some k
             \<and> validate_key hash_key mgr ?key None t_validate = (Inr (True, None), mgr)
             \<and> check_rate_limit hash_key mgr k t_init t_check = (Inr (False, Some reason), mgr2)
             \<and> dispatch hash_key self mgr req call_next t_validate t_init t_check =
                 (Inr (JSONResponse 429
                         [(''success'', JBool False), (''message'', JStr reason)]),
                  mgr2, [ValidateKey ?key, CheckRateLimit ?key]))
       \<or> (\<exists>k mgr2.
             ?key = Some k
             \<and> validate_key hash_key mgr ?key None t_validate = (Inr (True, None), mgr)
             \<and> check_rate_limit hash_key mgr k t_init t_check = (Inr (True, None), mgr2)
             \<and> dispatch hash_key self mgr req call_next t_validate t_init t_check =
                 (Inr (Downstream (call_next req)), mgr2,
                  [ValidateKey ?key, CheckRateLimit ?key, CallNext req]))"
  proof cases
    case fail
    from dispatch_rejected_auth [OF gated fail] fail show ?thesis by blast
  next
    case pass
    from pass(1) have v: "validate_key hash_key mgr (Some k) None t_validate =
        (Inr (True, None), mgr)"
      by (simp add: pass(2))
    from check_rate_limit_result [of mgr hash_key k info t_init t_check, OF pass(3)]
    obtain mgr2 where
      "(\<exists>reason. check_rate_limit hash_key mgr k t_init t_check = (Inr (False, Some reason), mgr2))
       \<or> check_rate_limit hash_key mgr k t_init t_check = (Inr (True, None), mgr2)"
      by blast
    then show ?thesis
    proof
      assume "\<exists>reason. check_rate_limit hash_key mgr k t_init t_check =
                (Inr (False, Some reason), mgr2)"
      then obtain reason where
        c: "check_rate_limit hash_key mgr k t_init t_check = (Inr (False, Some reason), mgr2)"
        by blast
      from dispatch_rejected_rate [OF gated pass(2) v c] pass(1,2) c
      show ?thesis by simp
    next
      assume c: "check_rate_limit hash_key mgr k t_init t_check = (Inr (True, None), mgr2)"
      from dispatch_forwarded [OF gated pass(2) v c] pass(1,2) c
      show ?thesis by simp
    qed
  qed
  then show "let key = ?key in
       (\<exists>reason.
          validate_key hash_key mgr key None t_validate = (Inr (False, Some reason), mgr)
          \<and> dispatch hash_key self mgr req call_next t_validate t_init t_check =
              (Inr (JSONResponse 401 [(''success'', JBool False), (''message'', JStr reason)]),
               mgr, [ValidateKey key]))
       \<or> (\<exists>k reason mgr2.
             key = Some k
             \<and> validate_key hash_key mgr key None t_validate = (Inr (True, None), mgr)
             \<and> check_rate_limit hash_key mgr k t_init t_check = (Inr (False, Some reason), mgr2)
             \<and> dispatch hash_key self mgr req call_next t_validate t_init t_check =
                 (Inr (JSONResponse 429
                         [(''success'', JBool False), (''message'', JStr reason)]),
                  mgr2, [ValidateKey key, CheckRateLimit key]))
       \<or> (\<exists>k mgr2.
             key = Some k
             \<and> validate_key hash_key mgr key None t_validate = (Inr (True, None), mgr)
             \<and> check_rate_limit hash_key mgr k t_init t_check = (Inr (True, None), mgr2)
             \<and> dispatch hash_key self mgr req call_next t_validate t_init t_check =
                 (Inr (Downstream (call_next req)), mgr2,
                  [ValidateKey key, CheckRateLimit key, CallNext req]))"
    unfolding Let_def by this
qed

theorem dispatch_allow_list_witness:
  "dispatch stub_hash ex_gate ex_mgr3 \<lparr>path = ''/health/live'', headers = Map.empty\<rparr>
       ex_handler 120 200 200 =
     (Inr (Downstream ''handled /health/live''), ex_mgr3,
      [CallNext \<lparr>path = ''/health/live'', headers = Map.empty\<rparr>])
   \<and> dispatch stub_hash ex_gate ex_mgr3 \<lparr>path = ''/api/health'', headers = Map.empty\<rparr>
       ex_handler 120 200 200 =
     (Inr (JSONResponse 401
             [(''success'', JBool False), (''message'', JStr ''API key is required'')]),
      ex_mgr3, [ValidateKey None])
   \<and> dispatch stub_hash ex_gate ex_mgr3
       \<lparr>path = ''/api/health'', headers = [''X-API-Key'' \<mapsto> ''sk-k1'']\<rparr> ex_handler 120 200 200 =
     (Inr (Downstream ''handled /api/health''),
      ex_mgr3\<lparr>request_tracker := (request_tracker ex_mgr3)(stub_hash ''sk-k1'' \<mapsto>
           \<lparr>requests = 1, window_start = 200\<rparr>)\<rparr>,
      [ValidateKey (Some ''sk-k1''), CheckRateLimit (Some ''sk-k1''),
       CallNext \<lparr>path = ''/api/health'', headers = [''X-API-Key'' \<mapsto> ''sk-k1'']\<rparr>])"
proof -
  have v1: "validate_key stub_hash ex_mgr3 None None 120 =
      (Inr (False, Some ''API key is required''), ex_mgr3)"
    by (simp add: validate_key_absent)
  have v3: "validate_key stub_hash ex_mgr3 (Some ''sk-k1'') None 120 =
      (Inr (True, None), ex_mgr3)"
    by (simp add: validate_key_found [of "''sk-k1''" ex_mgr3 stub_hash, OF _ ex_mgr3_key])
  have c3: "check_rate_limit stub_hash ex_mgr3 ''sk-k1'' 200 200 =
      (Inr (True, None),
       ex_mgr3\<lparr>request_tracker := (request_tracker ex_mgr3)(stub_hash ''sk-k1'' \<mapsto>
           \<lparr>requests = 1, window_start = 200\<rparr>)\<rparr>)"
    by (simp add: check_rate_limit_found [of ex_mgr3 stub_hash "''sk-k1''", OF ex_mgr3_key]
        ex_mgr3_rest Let_def)
  have 1: "dispatch stub_hash ex_gate ex_mgr3 \<lparr>path = ''/health/live'', headers = Map.empty\<rparr>
       ex_handler 120 200 200 =
     (Inr (Downstream ''handled /health/live''), ex_mgr3,
      [CallNext \<lparr>path = ''/health/live'', headers = Map.empty\<rparr>])"
    using dispatch_allow_list [of ex_gate "\<lparr>path = ''/health/live'', headers = Map.empty\<rparr>"
        stub_hash ex_mgr3 ex_handler 120 200 200, THEN conjunct1]
    by (simp add: ex_gate_paths ex_handler_def)
  have 2: "dispatch stub_hash ex_gate ex_mgr3 \<lparr>path = ''/api/health'', headers = Map.empty\<rparr>
       ex_handler 120 200 200 =
     (Inr (JSONResponse 401
             [(''success'', JBool False), (''message'', JStr ''API key is required'')]),
      ex_mgr3, [ValidateKey None])"
    using dispatch_allow_list [of ex_gate "\<lparr>path = ''/api/health'', headers = Map.empty\<rparr>"
        stub_hash ex_mgr3 ex_handler 120 200 200, THEN conjunct2]
    by (simp add: ex_gate_paths v1 Let_def)
  have 3: "dispatch stub_hash ex_gate ex_mgr3
       \<lparr>path = ''/api/health'', headers = [''X-API-Key'' \<mapsto> ''sk-k1'']\<rparr> ex_handler 120 200 200 =
     (Inr (Downstream ''handled /api/health''),
      ex_mgr3\<lparr>request_tracker := (request_tracker ex_mgr3)(stub_hash ''sk-k1'' \<mapsto>
           \<lparr>requests = 1, window_start = 200\<rparr>)\<rparr>,
      [ValidateKey (Some ''sk-k1''), CheckRateLimit (Some ''sk-k1''),
       CallNext \<lparr>path = ''/api/health'', headers = [''X-API-Key'' \<mapsto> ''sk-k1'']\<rparr>])"
    using dispatch_allow_list [of ex_gate
        "\<lparr>path = ''/api/health'', headers = [''X-API-Key'' \<mapsto> ''sk-k1'']\<rparr>"
        stub_hash ex_mgr3 ex_handler 120 200 200, THEN conjunct2]
    by (simp add: ex_gate_paths v3 c3 Let_def ex_handler_def)
  from 1 2 3 show ?thesis by simp
qed

subsection \<open>Expiry and creation times\<close>

lemma times_ok_later: "times_ok now st \<Longrightarrow> now \<le> now' \<Longrightarrow> times_ok now' st"
  by (force simp add: times_ok_def)

lemma times_ok_load:
  assumes "times_ok now st" and "now \<le> t1" and "t1 \<le> t2"
  shows "times_ok t2 (load_default_api_key hash_key st env t1 t2)"
proof -
  have "now \<le> t2" using assms by simp
  with assms show ?thesis
    by (force simp add: times_ok_def load_default_api_key_def new_dict_def Let_def)
qed

lemma times_ok_init:
  assumes "t1 \<le> t2"
  shows "times_ok t2 (manager_init hash_key env t1 t2)"
  unfolding manager_init_def
  by (rule times_ok_load [of t1]) (simp_all add: times_ok_def assms)

lemma generate_key_records:
  "api_keys (snd (generate_key hash_key st uuid_hex sc rl days md t1 t2)) =
     (if int_to_float_overflows (days * 24 * 3600) then api_keys st
      else (api_keys st)(hash_key (''sk-'' @ uuid_hex) \<mapsto>
             \<lparr>scopes = (case sc of None \<Rightarrow> [''*''] | Some s \<Rightarrow> s),
              rate_limit = (case rl of None \<Rightarrow> default_rate_limit st | Some r \<Rightarrow> r),
              created_at = t1,
              expires_at = t2 + (real_of_int days * 24 * 3600),
              metadata = (case md of None \<Rightarrow> next_object st | Some a \<Rightarrow> a)\<rparr>))"
  by (simp add: generate_key_def new_dict_def Let_def split: option.split
      del: mult_numeral_left_semiring_numeral)

lemma times_ok_generate:
  assumes "times_ok now st" and "now \<le> t1" and "t1 \<le> t2" and "0 < days"
  shows "times_ok t2 (snd (generate_key hash_key st uuid_hex sc rl days md t1 t2))"
proof -
  have later: "times_ok t2 st"
    using assms(1) by (rule times_ok_later) (use assms in simp)
  have "0 < real_of_int days * 24 * 3600" using assms by simp
  then have new: "t1 < t2 + (real_of_int days * 24 * 3600)" using assms by linarith
  show ?thesis
    unfolding times_ok_def generate_key_records
    using later new assms(3) by (auto simp add: times_ok_def)
qed

lemma update_key_records:
  assumes "api_keys st (hash_key k) = Some info"
  shows "\<exists>info'. api_keys (snd (update_key hash_key st k sc rl days md t)) =
                    (api_keys st)(hash_key k \<mapsto> info')
          \<and> created_at info' = created_at info
          \<and> (expires_at info' = expires_at info
              \<or> (\<exists>d. days = Some d \<and> expires_at info' = t + (real_of_int d * 24 * 3600)))"
proof (cases "\<forall>d. days = Some d \<longrightarrow> \<not> int_to_float_overflows (d * 24 * 3600)")
  case True
  show ?thesis
    unfolding update_key_found [of st hash_key k, OF assms True]
    by (cases days) auto
next
  case False
  then obtain d where "days = Some d" "int_to_float_overflows (d * 24 * 3600)"
    by blast
  then show ?thesis
    using update_key_overflow [of st hash_key k info d sc rl md t, OF assms]
    by auto
qed

lemma times_ok_update:
  assumes "times_ok now st" and "now \<le> t" and "\<forall>d. days = Some d \<longrightarrow> 0 < d"
  shows "times_ok t (snd (update_key hash_key st k sc rl days md t))"
proof (cases "api_keys st (hash_key k)")
  case None
  then show ?thesis
    using assms by (simp add: update_key_missing times_ok_later [of now])
next
  case (Some info)
  have old: "created_at info \<le> now" "created_at info < expires_at info"
    using assms(1) Some by (simp_all add: times_ok_def)
  have new: "created_at info < t + (real_of_int d * 24 * 3600)" if "days = Some d" for d
  proof -
    have "0 < real_of_int d * 24 * 3600" using assms(3) that by simp
    with old assms(2) show ?thesis by linarith
  qed
  have rest: "times_ok t st" using assms(1,2) by (rule times_ok_later)
  from update_key_records [of st hash_key k info sc rl days md t, OF Some]
  obtain info' where
    keys: "api_keys (snd (update_key hash_key st k sc rl days md t)) =
             (api_keys st)(hash_key k \<mapsto> info')"
    and created: "created_at info' = created_at info"
    and expires: "expires_at info' = expires_at info
              \<or> (\<exists>d. days = Some d \<and> expires_at info' = t + (real_of_int d * 24 * 3600))"
    by blast
  have mine: "created_at info' \<le> t \<and> created_at info' < expires_at info'"
    using created expires old new assms(2) by auto
  show ?thesis
    unfolding times_ok_def keys
    using rest mine by (auto simp add: times_ok_def)
qed

lemma times_ok_revoke:
  assumes "times_ok now st"
  shows "times_ok now (snd (revoke_key hash_key st k))"
proof (cases "api_keys st (hash_key k)")
  case None
  with assms show ?thesis by (simp add: revoke_key_missing)
next
  case (Some info)
  then have "api_keys st (hash_key k) \<noteq> None" by simp
  with assms show ?thesis
    by (simp add: revoke_key_found [of st hash_key k] times_ok_def)
qed

lemma check_rate_limit_keeps_records:
  "api_keys (snd (check_rate_limit hash_key st k t1 t2)) = api_keys st"
proof (cases "api_keys st (hash_key k)")
  case None
  then show ?thesis by (simp add: check_rate_limit_missing)
next
  case (Some info)
  then show ?thesis by (simp add: check_rate_limit_found [of st hash_key k] Let_def)
qed

lemma times_ok_check:
  assumes "times_ok now st" and "now \<le> t2"
  shows "times_ok t2 (snd (check_rate_limit hash_key st k t1 t2))"
  using times_ok_later [OF assms]
  by (simp add: times_ok_def check_rate_limit_keeps_records)

lemma reachable_times_ok: "reachable hash_key now st \<Longrightarrow> times_ok now st"
proof (induction rule: reachable.induct)
  case (reach_init t1 t2 env)
  then show ?case by (rule times_ok_init)
next
  case (reach_load now st t1 t2 env)
  then show ?case by (simp add: times_ok_load)
next
  case (reach_generate now st t1 t2 days uuid_hex sc rl md)
  then show ?case by (simp add: times_ok_generate)
next
  case (reach_update now st t days k sc rl md)
  then show ?case by (simp add: times_ok_update)
next
  case (reach_revoke now st k)
  then show ?case by (simp add: times_ok_revoke)
next
  case (reach_check now st t1 t2 k)
  then have "now \<le> t2" by simp
  with reach_check show ?case by (simp add: times_ok_check)
next
  case (reach_caller now st objects n)
  then show ?case by (simp add: times_ok_def)
qed

lemma ex_mgr_past_key:
  "api_keys ex_mgr_past (stub_hash ''sk-k9'') =
     Some \<lparr>scopes = [''*''], rate_limit = 1000, created_at = 110, expires_at = - 86290,
           metadata = 1\<rparr>"
  by (simp add: ex_mgr_past_def generate_key_def new_dict_def int_to_float_overflows_def stub_hash_def Let_def ex_mgr0_rest ex_mgr0_next)

text \<open>
  C9, amended. In every manager reached by construction and any sequence of
  \<^verbatim>\<open>_load_default_api_key\<close>, \<^verbatim>\<open>generate_key\<close>, \<^verbatim>\<open>update_key\<close>, \<^verbatim>\<open>revoke_key\<close>
  and \<^verbatim>\<open>check_rate_limit\<close> calls (whatever callers do to the metadata dictionaries
  in between) in which every \<^verbatim>\<open>expires_in_days\<close> passed is
  strictly positive and the clock readings never decrease, every stored record has
  \<open>expires_at > created_at\<close>.

  The claim as written allows any argument values: no method checks
  \<^verbatim>\<open>expires_in_days\<close>, and \<^verbatim>\<open>generate_key(expires_in_days=-1)\<close> stores a record that
  expired a day before it was created.
\<close>

theorem expires_after_created:
  "reachable hash_key now st \<Longrightarrow> api_keys st h = Some info \<Longrightarrow>
   created_at info < expires_at info"
  using reachable_times_ok [of hash_key now st] by (simp add: times_ok_def)

theorem expires_after_created_witness:
  "reachable stub_hash 110 ex_mgr3
   \<and> api_keys ex_mgr3 (stub_hash ''sk-k1'') \<noteq> None
   \<and> created_at (the (api_keys ex_mgr3 (stub_hash ''sk-k1'')))
       < expires_at (the (api_keys ex_mgr3 (stub_hash ''sk-k1'')))"
proof -
  have "reachable stub_hash 100 ex_mgr0"
    unfolding ex_mgr0_def by (rule reach_init) simp
  then have r: "reachable stub_hash 110 ex_mgr3"
    unfolding ex_mgr3_def by (rule reach_generate) simp_all
  from expires_after_created [OF r ex_mgr3_key]
  have "created_at (the (api_keys ex_mgr3 (stub_hash ''sk-k1'')))
       < expires_at (the (api_keys ex_mgr3 (stub_hash ''sk-k1'')))"
    by (simp add: ex_mgr3_key)
  with r show ?thesis by (simp add: ex_mgr3_key)
qed

theorem expires_after_created_counterexample:
  "ex_mgr_past = snd (generate_key stub_hash (manager_init stub_hash None 100 100)
                        ''k9'' None None (- 1) None 110 110)
   \<and> api_keys ex_mgr_past (stub_hash ''sk-k9'') \<noteq> None
   \<and> created_at (the (api_keys ex_mgr_past (stub_hash ''sk-k9''))) = 110
   \<and> expires_at (the (api_keys ex_mgr_past (stub_hash ''sk-k9''))) = - 86290
   \<and> \<not> created_at (the (api_keys ex_mgr_past (stub_hash ''sk-k9'')))
         < expires_at (the (api_keys ex_mgr_past (stub_hash ''sk-k9'')))"
  by (simp add: ex_mgr_past_key) (simp add: ex_mgr_past_def ex_mgr0_def)

end
